theory Spec2Isabelle
  imports Complex_Main
begin

section \<open>JavaScript values and objects\<close>

text \<open>
  The extension keeps watch records, settings and classifier answers as plain JavaScript
  objects whose property values are scalars. A value is one of the primitives below; a number
  is the real that the double denotes (the infinities are left out, \<open>VNaN\<close> is the
  not-a-number value). Comparisons, \<^verbatim>\<open>Math.floor\<close>, \<^verbatim>\<open>Math.min\<close>, \<^verbatim>\<open>Math.max\<close> and the sums
  of whole numbers (counts, seconds watched) are exact on doubles; the quotient and the
  product from which the detector computes the percent watched are rounded, by the
  \<open>round_double\<close> of the platform below. A string
  is a list of characters, one \<open>char\<close> per code unit (code units below 256).
  An object is a finite map from property names to values: a key that is absent is not the
  same as a key that holds \<open>VUndefined\<close> or \<open>VNull\<close>, and the spread
  \<^verbatim>\<open>{...a, ...b}\<close> is \<open>a ++ b\<close>.
\<close>

datatype jsval = VUndefined | VNull | VBool bool | VNum real | VNaN | VStr string

type_synonym obj = "string \<rightharpoonup> jsval"

text \<open>\<^verbatim>\<open>o.k\<close>: reading a missing property gives \<^verbatim>\<open>undefined\<close>.\<close>

definition getp :: "obj \<Rightarrow> string \<Rightarrow> jsval" where
  "getp ob k = (case ob k of None \<Rightarrow> VUndefined | Some v \<Rightarrow> v)"

text \<open>Truthiness, as \<^verbatim>\<open>!x\<close>, \<^verbatim>\<open>x || y\<close> and \<^verbatim>\<open>x && y\<close> test it.\<close>

fun truthy :: "jsval \<Rightarrow> bool" where
  "truthy VUndefined = False"
| "truthy VNull = False"
| "truthy (VBool b) = b"
| "truthy (VNum r) = (r \<noteq> 0)"
| "truthy VNaN = False"
| "truthy (VStr s) = (s \<noteq> [])"

text \<open>\<^verbatim>\<open>a || b\<close>\<close>

definition js_or :: "jsval \<Rightarrow> jsval \<Rightarrow> jsval" where
  "js_or a b = (if truthy a then a else b)"

text \<open>\<^verbatim>\<open>a === b\<close> on primitives: equal values of the same type, and \<^verbatim>\<open>NaN\<close> equals nothing.\<close>

definition strict_eq :: "jsval \<Rightarrow> jsval \<Rightarrow> bool" where
  "strict_eq a b = (a = b \<and> a \<noteq> VNaN)"

text \<open>\<^verbatim>\<open>x + 1\<close>: string concatenation when \<open>x\<close> is a string, numeric addition otherwise.\<close>

fun add_one :: "jsval \<Rightarrow> jsval" where
  "add_one (VNum r) = VNum (r + 1)"
| "add_one (VStr s) = VStr (s @ ''1'')"
| "add_one (VBool b) = VNum ((if b then 1 else 0) + 1)"
| "add_one VNull = VNum 1"
| "add_one VUndefined = VNaN"
| "add_one VNaN = VNaN"

text \<open>
  \<^verbatim>\<open>String.prototype.trim\<close>: strips white space and line terminators at both ends
  (tab, line feed, vertical tab, form feed, carriage return, space, no-break space).
\<close>

definition is_space :: "char \<Rightarrow> bool" where
  "is_space c = (of_char c \<in> {9, 10, 11, 12, 13, 32, 160 :: nat})"

definition trim :: "string \<Rightarrow> string" where
  "trim s = rev (dropWhile is_space (rev (dropWhile is_space s)))"

section \<open>The platform\<close>

text \<open>
  Functions of the browser that the code calls and that are not part of the repository are
  taken as parameters: every theorem holds for any such functions.
  \<^item> \<open>JSON_parse\<close>: \<^verbatim>\<open>JSON.parse\<close>; \<open>None\<close> is the thrown SyntaxError;
  \<^item> \<open>StringToNumber\<close>: \<^verbatim>\<open>Number(s)\<close> on a string; \<open>None\<close> is NaN;
  \<^item> \<open>Number_toString\<close>: the text of a number in a template literal;
  \<^item> \<open>Date_getTime\<close>: \<^verbatim>\<open>new Date(x).getTime()\<close> in milliseconds; \<open>None\<close> is NaN;
  \<^item> \<open>JSON_stringify\<close>: \<^verbatim>\<open>JSON.stringify\<close> of an object;
  \<^item> \<open>round_double\<close>: the double that an arithmetic operation returns for its exact result
    (the quotient or the product of two doubles is not a double in general, and \<^verbatim>\<open>/\<close> and
    \<^verbatim>\<open>*\<close> return a double next to it).
\<close>

datatype json_top =
    JObject obj    \<comment> \<open>the text was a JSON object\<close>
  | JNull          \<comment> \<open>the text was \<^verbatim>\<open>null\<close>: reading a property of it throws\<close>
  | JOther         \<comment> \<open>a number, string, boolean or array: its properties read \<^verbatim>\<open>undefined\<close>\<close>

record platform =
  JSON_parse :: "string \<Rightarrow> json_top option"
  StringToNumber :: "string \<Rightarrow> real option"
  Number_toString :: "real \<Rightarrow> string"
  Date_getTime :: "jsval \<Rightarrow> real option"
  JSON_stringify :: "obj \<Rightarrow> string"
  round_double :: "real \<Rightarrow> real"

text \<open>\<^verbatim>\<open>Number(x)\<close>\<close>

fun ToNumber :: "platform \<Rightarrow> jsval \<Rightarrow> jsval" where
  "ToNumber pf VUndefined = VNaN"
| "ToNumber pf VNull = VNum 0"
| "ToNumber pf (VBool b) = VNum (if b then 1 else 0)"
| "ToNumber pf (VNum r) = VNum r"
| "ToNumber pf VNaN = VNaN"
| "ToNumber pf (VStr s) = (case StringToNumber pf s of None \<Rightarrow> VNaN | Some r \<Rightarrow> VNum r)"

text \<open>\<^verbatim>\<open>Number.isFinite(x)\<close>: no coercion, only a number that is not NaN passes.\<close>

fun isFinite :: "jsval \<Rightarrow> bool" where
  "isFinite (VNum r) = True"
| "isFinite _ = False"


section \<open>storage.js: the local key-value store\<close>

text \<open>
  \<^verbatim>\<open>chrome.storage.local\<close> holds three keys. \<open>None\<close> is a key that is not set (for
  \<open>st_videos\<close> also a value that is not an array, which \<^verbatim>\<open>getVideos\<close> reads as empty;
  for \<open>st_settings\<close> also a falsy value). Failures of the storage API itself, which every
  helper catches and logs, are not modelled.
\<close>

record report =
  report_content :: string
  report_generatedAt :: string

record storage =
  st_videos :: "obj list option"
  st_settings :: "obj option"
  st_reportCache :: "report option"

definition DEFAULT_SETTINGS :: obj where
  "DEFAULT_SETTINGS =
     [''minWatchPercent'' \<mapsto> VNum 40,
      ''minWatchTimeSeconds'' \<mapsto> VNum 300,
      ''trackAutoplay'' \<mapsto> VBool True,
      ''countHiddenTime'' \<mapsto> VBool False,
      ''dataRetention'' \<mapsto> VStr ''all'',
      ''openRouterApiKey'' \<mapsto> VStr '''',
      ''aiFeaturesEnabled'' \<mapsto> VBool True,
      ''trackingEnabled'' \<mapsto> VBool True]"

definition getVideos :: "storage \<Rightarrow> obj list" where
  "getVideos st = (case st_videos st of None \<Rightarrow> [] | Some vs \<Rightarrow> vs)"

definition setVideos :: "obj list \<Rightarrow> storage \<Rightarrow> storage" where
  "setVideos vs st = st\<lparr>st_videos := Some vs\<rparr>"

text \<open>\<^verbatim>\<open>{ ...DEFAULT_SETTINGS, ...(result.settings || {}) }\<close>\<close>

definition getSettings :: "storage \<Rightarrow> obj" where
  "getSettings st =
     DEFAULT_SETTINGS ++ (case st_settings st of None \<Rightarrow> Map.empty | Some s \<Rightarrow> s)"

text \<open>
  \<^verbatim>\<open>const merged = { ...DEFAULT_SETTINGS, ...newSettings }\<close>, written over the stored
  settings: the stored object is not read.
\<close>

definition saveSettings :: "obj \<Rightarrow> storage \<Rightarrow> storage" where
  "saveSettings newSettings st = st\<lparr>st_settings := Some (DEFAULT_SETTINGS ++ newSettings)\<rparr>"

section \<open>popup.js: the tracking toggle\<close>

record popup_state =
  trackingEnabled :: bool
  aiActive :: bool

text \<open>
  The click handler of \<^verbatim>\<open>trackingToggle\<close>: flips the flag and saves an object that holds
  only \<^verbatim>\<open>trackingEnabled\<close>.
\<close>

definition trackingToggle_click :: "popup_state \<Rightarrow> storage \<Rightarrow> popup_state \<times> storage" where
  "trackingToggle_click ps st =
     (let ps' = ps\<lparr>trackingEnabled := \<not> trackingEnabled ps\<rparr>
      in (ps', saveSettings [''trackingEnabled'' \<mapsto> VBool (trackingEnabled ps')] st))"

section \<open>storage.js: watch records\<close>

fun findIndex :: "('a \<Rightarrow> bool) \<Rightarrow> 'a list \<Rightarrow> nat option" where
  "findIndex P [] = None"
| "findIndex P (x # xs) = (if P x then Some 0 else map_option Suc (findIndex P xs))"

definition saveVideo :: "obj \<Rightarrow> storage \<Rightarrow> storage" where
  "saveVideo video st =
     (let videos = getVideos st in
      case findIndex (\<lambda>item. strict_eq (getp item ''videoId'') (getp video ''videoId'')) videos of
        Some existingIndex \<Rightarrow>
          (let existing = videos ! existingIndex in
           setVideos (videos[existingIndex :=
             existing ++ video ++
               [''rewatchCount'' \<mapsto> add_one (js_or (getp existing ''rewatchCount'') (VNum 1)),
                ''watchedAt'' \<mapsto> getp video ''watchedAt'']]) st)
      | None \<Rightarrow>
          setVideos (videos @
            [video ++ [''rewatchCount'' \<mapsto> js_or (getp video ''rewatchCount'') (VNum 1)]]) st)"

definition updateVideo :: "jsval \<Rightarrow> obj \<Rightarrow> storage \<Rightarrow> storage" where
  "updateVideo videoId updates st =
     (let videos = getVideos st in
      case findIndex (\<lambda>video. strict_eq (getp video ''videoId'') videoId) videos of
        None \<Rightarrow> st
      | Some index \<Rightarrow> setVideos (videos[index := (videos ! index) ++ updates]) st)"

section \<open>storage.js: import\<close>

text \<open>Errors that the code throws, named after their messages.\<close>

datatype error =
    ImportedDataMustBeAnArray     \<comment> \<open>\<^verbatim>\<open>Imported data must be an array\<close>\<close>
  | MissingVideoId                \<comment> \<open>\<^verbatim>\<open>Missing video id\<close>\<close>
  | AIDisabledOrApiKeyMissing     \<comment> \<open>\<^verbatim>\<open>AI disabled or API key missing\<close>\<close>
  | NoWatchHistoryInThePast7Days  \<comment> \<open>\<^verbatim>\<open>No watch history in the past 7 days\<close>\<close>
  | UnknownMessageType            \<comment> \<open>\<^verbatim>\<open>Unknown message type\<close>\<close>
  | MissingOpenRouterApiKey       \<comment> \<open>\<^verbatim>\<open>Missing OpenRouter API key\<close>\<close>
  | FetchFailed                   \<comment> \<open>\<^verbatim>\<open>fetch\<close> rejected: the network failed\<close>
  | OpenRouterError nat           \<comment> \<open>\<^verbatim>\<open>OpenRouter error <status>: ...\<close>, a response that is not ok\<close>
  | ResponseBodyNotJson           \<comment> \<open>\<^verbatim>\<open>response.json()\<close> rejected\<close>
  | ResponseMissingContent        \<comment> \<open>\<^verbatim>\<open>OpenRouter response missing content\<close>\<close>
  | FailedToParseAIJson           \<comment> \<open>\<^verbatim>\<open>Failed to parse AI JSON\<close>\<close>
  | TypeError                     \<comment> \<open>a property of \<^verbatim>\<open>null\<close> was read, or a non-function was called\<close>















section \<open>tracker.js: the watch detector\<close>

text \<open>
  The content script keeps its state in module variables; they are the fields of \<open>tracker\<close>.
  The \<^verbatim>\<open>video\<close> element is read through four of its properties; \<open>duration = None\<close> is a
  duration that is \<^verbatim>\<open>NaN\<close> (metadata not loaded); an infinite duration (a live stream) is
  left out, as the infinities are.
\<close>

record player =
  currentTime :: real
  duration :: "real option"
  paused :: bool
  ended :: bool

record tracker =
  settings :: obj
  currentVideoId :: "string option"
  watchTimer :: bool
  player :: "player option"
  watchedSeconds :: real
  hasRecorded :: bool
  autoplayDetected :: bool
  interactionCaptured :: bool
  videoStartTimestamp :: real

definition DEFAULT_THRESHOLDS :: obj where
  "DEFAULT_THRESHOLDS =
     [''minWatchPercent'' \<mapsto> VNum 40,
      ''minWatchTimeSeconds'' \<mapsto> VNum 300,
      ''trackAutoplay'' \<mapsto> VBool True,
      ''countHiddenTime'' \<mapsto> VBool False,
      ''trackingEnabled'' \<mapsto> VBool True]"

definition POLL_INTERVAL_MS :: real where
  "POLL_INTERVAL_MS = 1000"

definition AUTOPLAY_WINDOW_MS :: real where
  "AUTOPLAY_WINDOW_MS = 2000"

text \<open>\<^verbatim>\<open>a ?? b\<close>\<close>

definition nullish_or :: "jsval \<Rightarrow> jsval \<Rightarrow> jsval" where
  "nullish_or a b = (if a = VUndefined \<or> a = VNull then b else a)"

text \<open>\<^verbatim>\<open>x >= t\<close> for a number \<open>x\<close>: \<open>t\<close> is converted to a number, and NaN compares false.\<close>

definition js_ge :: "platform \<Rightarrow> real \<Rightarrow> jsval \<Rightarrow> bool" where
  "js_ge pf x t = (case ToNumber pf t of VNum y \<Rightarrow> y \<le> x | _ \<Rightarrow> False)"

text \<open>
  What \<^verbatim>\<open>buildVideoPayload\<close> reads from the page when it runs: the title and the channel as
  its selectors resolve them, and the clock.
\<close>

record page =
  pg_title :: string
  pg_channelName :: string
  pg_channelId :: string
  pg_nowISO :: string

text \<open>The response of \<^verbatim>\<open>GET_SETTINGS\<close>, when it succeeds with data, is spread over the settings.\<close>

definition loadSettings :: "obj option \<Rightarrow> tracker \<Rightarrow> tracker" where
  "loadSettings response_data s =
     (case response_data of None \<Rightarrow> s | Some d \<Rightarrow> s\<lparr>settings := settings s ++ d\<rparr>)"

definition resetTracking :: "real \<Rightarrow> tracker \<Rightarrow> tracker" where
  "resetTracking now s =
     s\<lparr>watchTimer := False, watchedSeconds := 0, hasRecorded := False,
       autoplayDetected := False, videoStartTimestamp := now\<rparr>"

definition evaluateAutoplay :: "real \<Rightarrow> tracker \<Rightarrow> tracker" where
  "evaluateAutoplay now s =
     (if interactionCaptured s then s
      else if now - videoStartTimestamp s \<le> AUTOPLAY_WINDOW_MS then s\<lparr>autoplayDetected := True\<rparr>
      else s)"

text \<open>\<^verbatim>\<open>Math.round\<close> rounds halves up.\<close>

definition Math_round :: "real \<Rightarrow> int" where
  "Math_round x = \<lfloor>x + 1 / 2\<rfloor>"

definition buildVideoPayload :: "page \<Rightarrow> real \<Rightarrow> int \<Rightarrow> player \<Rightarrow> tracker \<Rightarrow> obj" where
  "buildVideoPayload pg percentWatched dur p s =
     [''videoId'' \<mapsto> (case currentVideoId s of None \<Rightarrow> VNull | Some v \<Rightarrow> VStr v),
      ''title'' \<mapsto> VStr (pg_title pg),
      ''channelName'' \<mapsto> VStr (pg_channelName pg),
      ''channelId'' \<mapsto> VStr (pg_channelId pg),
      ''thumbnail'' \<mapsto> VStr (''https://i.ytimg.com/vi/''
          @ (case currentVideoId s of None \<Rightarrow> ''null'' | Some v \<Rightarrow> v) @ ''/hqdefault.jpg''),
      ''watchedAt'' \<mapsto> VStr (pg_nowISO pg),
      ''watchedDuration'' \<mapsto>
          VNum (of_int (min \<lfloor>if currentTime p \<noteq> 0 then currentTime p else watchedSeconds s\<rfloor> dur)),
      ''totalDuration'' \<mapsto> VNum (of_int dur),
      ''watchPercent'' \<mapsto> VNum (of_int (Math_round percentWatched)),
      ''autoplay'' \<mapsto> VBool (autoplayDetected s),
      ''rewatchCount'' \<mapsto> VNum 1,
      ''aiCategory'' \<mapsto> VNull,
      ''aiCategoryConfidence'' \<mapsto> VNull]"

text \<open>
  \<^verbatim>\<open>evaluateAndSend\<close> returns the new state and the payload it sends to the service worker,
  if it sends one. \<open>dur\<close> is the local \<^verbatim>\<open>duration\<close>: \<^verbatim>\<open>Math.floor(player.duration || 0)\<close>.
  The percent is \<^verbatim>\<open>(player.currentTime / duration) * 100\<close> in double arithmetic: the quotient
  is rounded, and so is its product with 100 (at position 57 of 100 seconds the percent
  computed is \<^verbatim>\<open>56.99999999999999\<close>).
\<close>

definition evaluateAndSend :: "platform \<Rightarrow> page \<Rightarrow> tracker \<Rightarrow> tracker \<times> obj option" where
  "evaluateAndSend pf pg s =
     (case player s of
        None \<Rightarrow> (s, None)
      | Some p \<Rightarrow>
          if hasRecorded s then (s, None)
          else if \<not> truthy (getp (settings s) ''trackingEnabled'') then (s, None)
          else
            let dur = \<lfloor>case duration p of None \<Rightarrow> 0 | Some d \<Rightarrow> d\<rfloor> in
            if dur = 0 then (s, None)
            else
              let percentWatched =
                    min 100 (round_double pf (round_double pf (currentTime p / of_int dur) * 100));
                  percentThreshold = nullish_or (getp (settings s) ''minWatchPercent'')
                                                (getp DEFAULT_THRESHOLDS ''minWatchPercent'');
                  timeThreshold = nullish_or (getp (settings s) ''minWatchTimeSeconds'')
                                             (getp DEFAULT_THRESHOLDS ''minWatchTimeSeconds'');
                  watchedEnough = (js_ge pf percentWatched percentThreshold
                                   \<or> js_ge pf (watchedSeconds s) timeThreshold)
              in if \<not> watchedEnough then (s, None)
                 else (s\<lparr>hasRecorded := True\<rparr>, Some (buildVideoPayload pg percentWatched dur p s)))"

definition trackWatchTime :: "platform \<Rightarrow> bool \<Rightarrow> page \<Rightarrow> tracker \<Rightarrow> tracker \<times> obj option" where
  "trackWatchTime pf hidden pg s =
     (case player s of
        None \<Rightarrow> (s, None)
      | Some p \<Rightarrow>
          if paused p \<or> ended p \<or> (case duration p of None \<Rightarrow> True | Some d \<Rightarrow> d = 0) then (s, None)
          else if \<not> truthy (getp (settings s) ''countHiddenTime'') \<and> hidden then (s, None)
          else evaluateAndSend pf pg (s\<lparr>watchedSeconds := watchedSeconds s + POLL_INTERVAL_MS / 1000\<rparr>))"

text \<open>
  What IEEE 754 guarantees of the rounding to the nearest double, away from overflow and
  underflow: the relative error is at most \<^verbatim>\<open>2^-53\<close>. It is stated for the magnitudes
  between a thousandth and a thousand, where the quotients and percents of the examples lie.
\<close>

definition double_precision :: "platform \<Rightarrow> bool" where
  "double_precision pf \<longleftrightarrow>
     (\<forall>x. 1 / 1024 \<le> \<bar>x\<bar> \<and> \<bar>x\<bar> \<le> 1024 \<longrightarrow> \<bar>round_double pf x - x\<bar> \<le> \<bar>x\<bar> / 2 ^ 53)"

text \<open>
  What happens to the script during one detection session, that is between two calls of
  \<^verbatim>\<open>resetTracking\<close>: the interval timer fires (with the properties the element has then and
  \<^verbatim>\<open>document.hidden\<close>), the element fires \<^verbatim>\<open>ended\<close> or \<^verbatim>\<open>playing\<close>, the user presses a key or
  a button. The element is the same object throughout; only its properties change.
\<close>

datatype event =
    Tick player bool page
  | Ended player page
  | Playing real
  | Interaction

definition observe :: "player \<Rightarrow> tracker \<Rightarrow> tracker" where
  "observe p s = s\<lparr>player := map_option (\<lambda>_. p) (player s)\<rparr>"

fun step :: "platform \<Rightarrow> event \<Rightarrow> tracker \<Rightarrow> tracker \<times> obj option" where
  "step pf (Tick p hidden pg) s = trackWatchTime pf hidden pg (observe p s)"
| "step pf (Ended p pg) s =
     (if \<not> hasRecorded (observe p s) then evaluateAndSend pf pg (observe p s)
      else (observe p s, None))"
| "step pf (Playing now) s = (evaluateAutoplay now s, None)"
| "step pf Interaction s = (s\<lparr>interactionCaptured := True\<rparr>, None)"

text \<open>A run of the session: the final state and the watch events sent, in order.\<close>

fun run :: "platform \<Rightarrow> tracker \<Rightarrow> event list \<Rightarrow> tracker \<times> obj list" where
  "run pf s [] = (s, [])"
| "run pf s (ev # evs) =
     (case step pf ev s of
        (s', out) \<Rightarrow>
          (case run pf s' evs of
             (s'', outs) \<Rightarrow> (s'', (case out of None \<Rightarrow> [] | Some e \<Rightarrow> [e]) @ outs)))"

section \<open>ai.js: the OpenRouter client\<close>

text \<open>
  The repository holds two copies of \<^verbatim>\<open>ai.js\<close>. They share \<^verbatim>\<open>callOpenRouter\<close>,
  \<^verbatim>\<open>parseJsonContent\<close> and \<^verbatim>\<open>generateWeeklyReportAi\<close> and differ in \<^verbatim>\<open>categorizeVideoAi\<close>:
  the first copy (lines 82 to 121) degrades to a keyword heuristic, here \<open>categorizeVideoAi\<close>;
  the second (lines 217 to 249) has no heuristic, here \<open>categorizeVideoAi_plain\<close>.
\<close>

definition AI_MODEL_PRIMARY :: string where
  "AI_MODEL_PRIMARY = ''mistralai/mistral-nemo''"

definition AI_MODEL_FALLBACK :: string where
  "AI_MODEL_FALLBACK = ''google/gemma-3-12b-it''"

definition KEYWORD_HINTS :: "(string \<times> string list) list" where
  "KEYWORD_HINTS =
     [(''Gaming'', [''game'', ''gaming'', ''let'' @ [CHR 0x27] @ ''s play'', ''walkthrough'', ''speedrun'',
                   ''playthrough'', ''boss fight'']),
      (''Technology'', [''tech'', ''iphone'', ''android'', ''gadget'', ''review'', ''unboxing'', ''hardware'']),
      (''Programming'', [''javascript'', ''python'', ''coding'', ''tutorial'', ''react'', ''rust'', ''api'',
                        ''typescript'', ''web dev'']),
      (''Music'', [''music'', ''song'', ''cover'', ''instrumental'', ''lyrics'', ''band'', ''concert'']),
      (''Education'', [''lecture'', ''class'', ''course'', ''study'', ''learn'', ''lesson'']),
      (''Science'', [''science'', ''space'', ''experiment'', ''physics'', ''chemistry'', ''biology'', ''nasa'']),
      (''Finance'', [''stock'', ''crypto'', ''invest'', ''trading'', ''money'', ''budget'']),
      (''Health'', [''workout'', ''fitness'', ''diet'', ''health'', ''yoga'', ''meditation'']),
      (''Comedy'', [''funny'', ''comedy'', ''skit'', ''sketch'', ''standup'', ''prank'']),
      (''News'', [''news'', ''breaking'', ''update'', ''headline'']),
      (''Sports'', [''match'', ''highlights'', ''football'', ''basketball'', ''soccer'', ''nfl'', ''nba'', ''fifa'']),
      (''Cooking'', [''recipe'', ''cook'', ''kitchen'', ''bake'', ''chef'', ''meal'']),
      (''Travel'', [''travel'', ''trip'', ''tour'', ''destination'', ''journey'', ''vlog'']),
      (''Art'', [''art'', ''drawing'', ''painting'', ''illustration'', ''design'']),
      (''Productivity'', [''productivity'', ''habit'', ''planner'', ''focus'', ''time management'']),
      (''Philosophy'', [''philosophy'', ''ethics'', ''stoic'', ''existential'']),
      (''Politics'', [''politics'', ''policy'', ''election'', ''government'']),
      (''History'', [''history'', ''historic'', ''wwii'', ''ancient'', ''civilization''])]"

text \<open>
  \<^verbatim>\<open>toLowerCase\<close> on code units below 256: the letters A to Z and the accented capitals
  (192 to 222, without the multiplication sign 215) move up by 32.
\<close>

definition lower_char :: "char \<Rightarrow> char" where
  "lower_char c =
     (let n = (of_char c :: nat)
      in if (65 \<le> n \<and> n \<le> 90) \<or> (192 \<le> n \<and> n \<le> 222 \<and> n \<noteq> 215) then char_of (n + 32) else c)"

definition toLowerCase :: "string \<Rightarrow> string" where
  "toLowerCase s = map lower_char s"

text \<open>\<^verbatim>\<open>haystack.includes(keyword)\<close>\<close>

fun starts_with :: "string \<Rightarrow> string \<Rightarrow> bool" where
  "starts_with s [] = True"
| "starts_with [] (k # ks) = False"
| "starts_with (c # s) (k # ks) = (c = k \<and> starts_with s ks)"

fun includes_str :: "string \<Rightarrow> string \<Rightarrow> bool" where
  "includes_str [] k = (k = [])"
| "includes_str (c # s) k = (starts_with (c # s) k \<or> includes_str s k)"

text \<open>The text of a value inside a template literal.\<close>

fun ToString :: "platform \<Rightarrow> jsval \<Rightarrow> string" where
  "ToString pf VUndefined = ''undefined''"
| "ToString pf VNull = ''null''"
| "ToString pf (VBool b) = (if b then ''true'' else ''false'')"
| "ToString pf (VNum r) = Number_toString pf r"
| "ToString pf VNaN = ''NaN''"
| "ToString pf (VStr s) = s"

text \<open>
  \<^verbatim>\<open>inferHeuristicCategory(title = '', channelName = '')\<close>: the default applies to an
  argument that is \<^verbatim>\<open>undefined\<close>. The result is the category of the first hint one of whose
  keywords occurs in the lowercased text, or \<^verbatim>\<open>null\<close>.
\<close>

definition inferHeuristicCategory :: "platform \<Rightarrow> jsval \<Rightarrow> jsval \<Rightarrow> jsval" where
  "inferHeuristicCategory pf title channelName =
     (let t = (if title = VUndefined then VStr '''' else title);
          c = (if channelName = VUndefined then VStr '''' else channelName);
          haystack = toLowerCase (ToString pf t @ '' '' @ ToString pf c)
      in case find (\<lambda>hint. list_ex (\<lambda>keyword. includes_str haystack keyword) (snd hint)) KEYWORD_HINTS of
           Some hint \<Rightarrow> VStr (fst hint)
         | None \<Rightarrow> VNull)"

text \<open>
  The classifier is outside the program. What it does to the \<open>n\<close>-th request sent to it
  (counting from 0) is given by a function: the request fails in the network, is answered
  with a status that is not a success, is answered with a body that is not JSON, or is
  answered with a JSON body, of which the code reads only
  \<^verbatim>\<open>data?.choices?.[0]?.message?.content\<close>, the value carried by \<open>Body\<close>.
\<close>

datatype response = NetworkFailure | HttpStatus nat | BodyNotJson | Body jsval

type_synonym world = "nat \<Rightarrow> response"

text \<open>
  \<^verbatim>\<open>callOpenRouter\<close>. The list of the models requested so far is threaded through: a
  request is sent exactly when a model is appended to it.
\<close>

definition callOpenRouter :: "world \<Rightarrow> jsval \<Rightarrow> string \<Rightarrow> string list \<Rightarrow> (error + jsval) \<times> string list" where
  "callOpenRouter w apiKey model calls =
     (if \<not> truthy apiKey then (Inl MissingOpenRouterApiKey, calls)
      else ((case w (length calls) of
               NetworkFailure \<Rightarrow> Inl FetchFailed
             | HttpStatus status \<Rightarrow> Inl (OpenRouterError status)
             | BodyNotJson \<Rightarrow> Inl ResponseBodyNotJson
             | Body c \<Rightarrow> Inr c),
            calls @ [model]))"

text \<open>
  The block \<^verbatim>\<open>try { data = await callOpenRouter(primary) } catch { data = await
  callOpenRouter(fallback) }\<close> that the three callers share.
\<close>

definition primary_then_fallback :: "world \<Rightarrow> jsval \<Rightarrow> string list \<Rightarrow> (error + jsval) \<times> string list" where
  "primary_then_fallback w apiKey calls =
     (case callOpenRouter w apiKey AI_MODEL_PRIMARY calls of
        (Inr c, calls') \<Rightarrow> (Inr c, calls')
      | (Inl primaryError, calls') \<Rightarrow> callOpenRouter w apiKey AI_MODEL_FALLBACK calls')"

text \<open>\<^verbatim>\<open>indexOf\<close> and \<^verbatim>\<open>lastIndexOf\<close> of a character; \<open>None\<close> is \<open>-1\<close>.\<close>

fun indexOf :: "string \<Rightarrow> char \<Rightarrow> nat option" where
  "indexOf [] c = None"
| "indexOf (x # xs) c = (if x = c then Some 0 else map_option Suc (indexOf xs c))"

definition lastIndexOf :: "string \<Rightarrow> char \<Rightarrow> nat option" where
  "lastIndexOf s c = (case indexOf (rev s) c of None \<Rightarrow> None | Some i \<Rightarrow> Some (length s - 1 - i))"

text \<open>\<^verbatim>\<open>content.slice(start, end)\<close> for indices within the string: empty when \<open>end \<le> start\<close>.\<close>

definition slice :: "string \<Rightarrow> nat \<Rightarrow> nat \<Rightarrow> string" where
  "slice s start end = take (end - start) (drop start s)"

text \<open>
  \<^verbatim>\<open>const start = content.indexOf('{'); const end = content.lastIndexOf('}') + 1;
  const jsonSegment = start >= 0 ? content.slice(start, end) : content;\<close>
\<close>

definition jsonSegment :: "string \<Rightarrow> string" where
  "jsonSegment content =
     (let end = (case lastIndexOf content (CHR ''}'') of None \<Rightarrow> 0 | Some i \<Rightarrow> i + 1)
      in case indexOf content (CHR ''{'') of
           Some start \<Rightarrow> slice content start end
         | None \<Rightarrow> content)"

text \<open>
  \<^verbatim>\<open>parseJsonContent\<close>: every exception inside becomes \<^verbatim>\<open>Failed to parse AI JSON\<close>, also the
  TypeError of calling \<^verbatim>\<open>indexOf\<close> on a content that is not a string.
\<close>

definition parseJsonContent :: "platform \<Rightarrow> jsval \<Rightarrow> error + json_top" where
  "parseJsonContent pf content =
     (case content of
        VStr s \<Rightarrow> (case JSON_parse pf (jsonSegment s) of
                     None \<Rightarrow> Inl FailedToParseAIJson
                   | Some parsed \<Rightarrow> Inr parsed)
      | _ \<Rightarrow> Inl FailedToParseAIJson)"

text \<open>\<^verbatim>\<open>parsed.k\<close> for a parsed value that is not \<^verbatim>\<open>null\<close>.\<close>

fun parsed_prop :: "json_top \<Rightarrow> string \<Rightarrow> jsval" where
  "parsed_prop (JObject ob) k = getp ob k"
| "parsed_prop JNull k = VUndefined"
| "parsed_prop JOther k = VUndefined"

text \<open>The \<^verbatim>\<open>try\<close> block of the first copy's \<^verbatim>\<open>categorizeVideoAi\<close>, up to its \<^verbatim>\<open>return\<close>.\<close>

definition categorize_try ::
  "platform \<Rightarrow> world \<Rightarrow> jsval \<Rightarrow> jsval \<Rightarrow> jsval \<Rightarrow> string list \<Rightarrow> (error + jsval \<times> jsval) \<times> string list" where
  "categorize_try pf w title channelName apiKey calls =
     (let heuristicCategory = inferHeuristicCategory pf title channelName in
      case primary_then_fallback w apiKey calls of
        (Inl e, calls') \<Rightarrow> (Inl e, calls')
      | (Inr content, calls') \<Rightarrow>
          if \<not> truthy content then (Inl ResponseMissingContent, calls')
          else (case parseJsonContent pf content of
                  Inl e \<Rightarrow> (Inl e, calls')
                | Inr JNull \<Rightarrow> (Inl TypeError, calls')
                | Inr parsed \<Rightarrow>
                    let cleanCategory = (case parsed_prop parsed ''category'' of
                                           VStr s \<Rightarrow> VStr s
                                         | _ \<Rightarrow> VStr ''Uncategorized'');
                        normalizedCategory =
                          (if truthy cleanCategory \<and> cleanCategory \<noteq> VStr ''Uncategorized''
                           then cleanCategory
                           else js_or heuristicCategory (VStr ''Uncategorized''))
                    in (Inr (normalizedCategory,
                             js_or (parsed_prop parsed ''confidence'')
                                   (if truthy heuristicCategory then VStr ''medium'' else VStr ''low'')),
                        calls')))"

text \<open>
  \<^verbatim>\<open>categorizeVideoAi\<close>, first copy: the \<^verbatim>\<open>catch\<close> answers with the heuristic category and
  \<^verbatim>\<open>medium\<close> if a keyword matches, with \<^verbatim>\<open>Uncategorized\<close> and \<^verbatim>\<open>low\<close> otherwise. The result
  is the pair of \<^verbatim>\<open>category\<close> and \<^verbatim>\<open>confidence\<close>.
\<close>

definition categorizeVideoAi ::
  "platform \<Rightarrow> world \<Rightarrow> jsval \<Rightarrow> jsval \<Rightarrow> jsval \<Rightarrow> string list \<Rightarrow> (jsval \<times> jsval) \<times> string list" where
  "categorizeVideoAi pf w title channelName apiKey calls =
     (case categorize_try pf w title channelName apiKey calls of
        (Inr result, calls') \<Rightarrow> (result, calls')
      | (Inl e, calls') \<Rightarrow>
          (let heuristicCategory = inferHeuristicCategory pf title channelName
           in ((js_or heuristicCategory (VStr ''Uncategorized''),
                if truthy heuristicCategory then VStr ''medium'' else VStr ''low''),
               calls')))"



text \<open>
  \<^verbatim>\<open>generateWeeklyReportAi\<close>: the content is \<^verbatim>\<open>data?.choices?.[0]?.message?.content?.trim()\<close>;
  every error is logged and thrown again. The prompt, which carries the summary, is text
  that nothing in the program reads back, and is left out.
\<close>

definition generateWeeklyReportAi :: "world \<Rightarrow> jsval \<Rightarrow> string list \<Rightarrow> (error + string) \<times> string list" where
  "generateWeeklyReportAi w apiKey calls =
     (case primary_then_fallback w apiKey calls of
        (Inl e, calls') \<Rightarrow> (Inl e, calls')
      | (Inr c, calls') \<Rightarrow>
          (case c of
             VUndefined \<Rightarrow> (Inl ResponseMissingContent, calls')
           | VNull \<Rightarrow> (Inl ResponseMissingContent, calls')
           | VStr s \<Rightarrow> (if trim s = [] then (Inl ResponseMissingContent, calls') else (Inr (trim s), calls'))
           | _ \<Rightarrow> (Inl TypeError, calls')))"

text \<open>A request that fails: network error, status that is not a success, or a body that is not JSON.\<close>

fun failed :: "response \<Rightarrow> bool" where
  "failed (Body c) = False"
| "failed _ = True"

section \<open>service-worker.js: orchestration\<close>

text \<open>
  The state of the service worker: the store, the queue of pending jobs, the flag of the
  worker loop, and the models requested from the classifier so far. \<open>now\<close> is \<^verbatim>\<open>Date.now()\<close>
  in milliseconds. The awaits of one handler are not interleaved with other handlers.
\<close>

record worker =
  store :: storage
  aiQueue :: "obj list"
  queueProcessing :: bool
  calls :: "string list"

definition AI_RATE_LIMIT_MS :: real where
  "AI_RATE_LIMIT_MS = 1000"

definition RECENT_WINDOW_MS :: real where
  "RECENT_WINDOW_MS = 7 * 24 * 60 * 60 * 1000"

definition processSingleJob :: "platform \<Rightarrow> world \<Rightarrow> obj \<Rightarrow> worker \<Rightarrow> worker" where
  "processSingleJob pf w job st =
     (let s = getSettings (store st) in
      if \<not> truthy (getp s ''aiFeaturesEnabled'') \<or> \<not> truthy (getp s ''openRouterApiKey'')
      then st\<lparr>store := updateVideo (getp job ''videoId'')
                  [''aiCategory'' \<mapsto> VStr ''Uncategorized'', ''aiCategoryConfidence'' \<mapsto> VStr ''low'']
                  (store st)\<rparr>
      else (case categorizeVideoAi pf w (getp job ''title'') (getp job ''channelName'')
                   (getp s ''openRouterApiKey'') (calls st) of
              ((category, confidence), calls') \<Rightarrow>
                st\<lparr>store := updateVideo (getp job ''videoId'')
                      [''aiCategory'' \<mapsto> category, ''aiCategoryConfidence'' \<mapsto> confidence]
                      (store st),
                   calls := calls'\<rparr>))"

lemma aiQueue_processSingleJob: "aiQueue (processSingleJob pf w job st) = aiQueue st"
  by (simp add: processSingleJob_def Let_def split: prod.splits)

text \<open>
  The loop of \<^verbatim>\<open>processQueueSafely\<close>: \<^verbatim>\<open>while (aiQueue.length) { const job = aiQueue.shift();
  try { await processSingleJob(job); await delay(...) } catch { log } }\<close>. Nothing that
  \<^verbatim>\<open>processSingleJob\<close> calls throws (the storage helpers and \<^verbatim>\<open>categorizeVideoAi\<close> catch
  their errors), so the \<^verbatim>\<open>catch\<close> has no branch in the model.
\<close>

function processQueue :: "platform \<Rightarrow> world \<Rightarrow> worker \<Rightarrow> worker" where
  "processQueue pf w st =
     (case aiQueue st of
        [] \<Rightarrow> st
      | job # rest \<Rightarrow> processQueue pf w (processSingleJob pf w job (st\<lparr>aiQueue := rest\<rparr>)))"
  by pat_completeness auto
termination
  by (relation "measure (\<lambda>(pf, w, st). length (aiQueue st))") (auto simp: aiQueue_processSingleJob)

declare processQueue.simps [simp del]

definition processQueueSafely :: "platform \<Rightarrow> world \<Rightarrow> worker \<Rightarrow> worker" where
  "processQueueSafely pf w st =
     (if queueProcessing st then st
      else (processQueue pf w (st\<lparr>queueProcessing := True\<rparr>))\<lparr>queueProcessing := False\<rparr>)"

text \<open>
  \<^verbatim>\<open>queueCategorizationJob\<close> appends the job unless one with the same id is queued, and starts
  the worker loop without awaiting it; in the model the loop drains before the handler goes
  on.
\<close>

definition queueCategorizationJob :: "platform \<Rightarrow> world \<Rightarrow> obj \<Rightarrow> worker \<Rightarrow> worker" where
  "queueCategorizationJob pf w video st =
     (let jobExists = list_ex (\<lambda>job. strict_eq (getp job ''videoId'') (getp video ''videoId'')) (aiQueue st);
          st' = (if \<not> jobExists
                 then st\<lparr>aiQueue := aiQueue st @
                        [[''videoId'' \<mapsto> getp video ''videoId'',
                          ''title'' \<mapsto> getp video ''title'',
                          ''channelName'' \<mapsto> getp video ''channelName'']]\<rparr>
                 else st)
      in processQueueSafely pf w st')"

definition replaceHistory :: "obj list \<Rightarrow> storage \<Rightarrow> storage" where
  "replaceHistory vs st = setVideos vs st"

text \<open>
  \<^verbatim>\<open>applyRetentionPolicy\<close>. The lookup \<^verbatim>\<open>{ '3m': 90, '6m': 182, '1y': 365 }[retentionDays]\<close>
  is read on its own three keys.
\<close>

definition applyRetentionPolicy :: "platform \<Rightarrow> real \<Rightarrow> obj \<Rightarrow> storage \<Rightarrow> storage" where
  "applyRetentionPolicy pf now s st =
     (let retentionDays = getp s ''dataRetention'' in
      if strict_eq retentionDays (VStr ''all'') then st
      else (case (if retentionDays = VStr ''3m'' then Some 90
                  else if retentionDays = VStr ''6m'' then Some 182
                  else if retentionDays = VStr ''1y'' then Some (365 :: real)
                  else None) of
              None \<Rightarrow> st
            | Some daysToKeep \<Rightarrow>
                (let cutoff = now - daysToKeep * 24 * 60 * 60 * 1000;
                     history = getVideos st;
                     filtered = filter (\<lambda>video. case Date_getTime pf (getp video ''watchedAt'') of
                                                   Some t \<Rightarrow> cutoff \<le> t
                                                 | None \<Rightarrow> False) history
                 in if length filtered \<noteq> length history then replaceHistory filtered st else st)))"

text \<open>
  \<^verbatim>\<open>handleVideoWatched\<close>: the result is \<^verbatim>\<open>{ skipped: true }\<close>, \<^verbatim>\<open>{ stored: true }\<close> or a
  thrown error, which the message listener answers with \<^verbatim>\<open>{ success: false, error }\<close>. The
  payload \<open>None\<close> is a message without an object as payload.
\<close>

datatype watched_result = Skipped | Stored

definition handleVideoWatched ::
  "platform \<Rightarrow> world \<Rightarrow> real \<Rightarrow> obj option \<Rightarrow> worker \<Rightarrow> (error + watched_result) \<times> worker" where
  "handleVideoWatched pf w now payload st =
     (case payload of
        None \<Rightarrow> (Inl MissingVideoId, st)
      | Some p \<Rightarrow>
          if \<not> truthy (getp p ''videoId'') then (Inl MissingVideoId, st)
          else
            let s = getSettings (store st) in
            if \<not> truthy (getp s ''trackingEnabled'') then (Inr Skipped, st)
            else if truthy (getp p ''autoplay'') \<and> \<not> truthy (getp s ''trackAutoplay'') then (Inr Skipped, st)
            else
              let st1 = st\<lparr>store := saveVideo p (store st)\<rparr>;
                  st2 = st1\<lparr>store := applyRetentionPolicy pf now s (store st1)\<rparr>;
                  st3 = (if truthy (getp s ''aiFeaturesEnabled'') \<and> truthy (getp s ''openRouterApiKey'')
                         then queueCategorizationJob pf w p st2
                         else st2\<lparr>store := updateVideo (getp p ''videoId'')
                                   [''aiCategory'' \<mapsto> VStr ''Uncategorized'',
                                    ''aiCategoryConfidence'' \<mapsto> VStr ''low'']
                                   (store st2)\<rparr>)
              in (Inr Stored, st3))"

definition saveReport :: "report \<Rightarrow> storage \<Rightarrow> storage" where
  "saveReport r st = st\<lparr>st_reportCache := Some r\<rparr>"

text \<open>
  \<^verbatim>\<open>handleWeeklyReport\<close>. A record is recent when \<^verbatim>\<open>Date.now() - new Date(video.watchedAt)
  .getTime() <= RECENT_WINDOW_MS\<close>; a date that does not parse gives NaN, which fails the
  comparison. \<open>nowISO\<close> is \<^verbatim>\<open>new Date().toISOString()\<close>. The summary text of
  \<^verbatim>\<open>buildWeeklySummary\<close> goes into the prompt only.
\<close>

definition is_recent :: "platform \<Rightarrow> real \<Rightarrow> obj \<Rightarrow> bool" where
  "is_recent pf now video =
     (case Date_getTime pf (getp video ''watchedAt'') of
        Some t \<Rightarrow> now - t \<le> RECENT_WINDOW_MS
      | None \<Rightarrow> False)"

definition handleWeeklyReport ::
  "platform \<Rightarrow> world \<Rightarrow> real \<Rightarrow> string \<Rightarrow> worker \<Rightarrow> (error + report) \<times> worker" where
  "handleWeeklyReport pf w now nowISO st =
     (let s = getSettings (store st) in
      if \<not> truthy (getp s ''aiFeaturesEnabled'') \<or> \<not> truthy (getp s ''openRouterApiKey'')
      then (Inl AIDisabledOrApiKeyMissing, st)
      else
        let history = getVideos (store st);
            recent = filter (is_recent pf now) history
        in if recent = [] then (Inl NoWatchHistoryInThePast7Days, st)
           else (case generateWeeklyReportAi w (getp s ''openRouterApiKey'') (calls st) of
                   (Inl e, calls') \<Rightarrow> (Inl e, st\<lparr>calls := calls'\<rparr>)
                 | (Inr reportContent, calls') \<Rightarrow>
                     (let r = \<lparr>report_content = reportContent, report_generatedAt = nowISO\<rparr>
                      in (Inr r, st\<lparr>store := saveReport r (store st), calls := calls'\<rparr>))))"

section \<open>dashboard.js: the settings form\<close>

definition FORM_DEFAULTS :: obj where
  "FORM_DEFAULTS =
     [''minWatchPercent'' \<mapsto> VNum 40,
      ''minWatchTimeSeconds'' \<mapsto> VNum 300,
      ''trackAutoplay'' \<mapsto> VBool True,
      ''countHiddenTime'' \<mapsto> VBool True,
      ''dataRetention'' \<mapsto> VStr ''all'',
      ''aiFeaturesEnabled'' \<mapsto> VBool True,
      ''openRouterApiKey'' \<mapsto> VStr '''',
      ''trackingEnabled'' \<mapsto> VBool True]"

definition RETENTION_OPTIONS :: "jsval list" where
  "RETENTION_OPTIONS = [VStr ''all'', VStr ''3m'', VStr ''6m'', VStr ''1y'']"

fun clampNumber :: "jsval \<Rightarrow> real \<Rightarrow> real \<Rightarrow> jsval \<Rightarrow> jsval" where
  "clampNumber (VNum r) lo hi fallback = (if lo \<le> r \<and> r \<le> hi then VNum r else fallback)"
| "clampNumber v lo hi fallback = fallback"

fun ensureSeconds :: "jsval \<Rightarrow> jsval \<Rightarrow> jsval" where
  "ensureSeconds (VNum r) fallback = (if 60 \<le> r then VNum r else fallback)"
| "ensureSeconds v fallback = fallback"

fun parseBoolean :: "jsval \<Rightarrow> jsval \<Rightarrow> jsval" where
  "parseBoolean (VBool b) fallback = VBool b"
| "parseBoolean (VStr s) fallback =
     (if s = ''true'' then VBool True else if s = ''false'' then VBool False else fallback)"
| "parseBoolean v fallback = fallback"

text \<open>\<^verbatim>\<open>typeof v === 'string' ? v.trim() : fallback\<close> and \<^verbatim>\<open>typeof v === 'string' ? v : fallback\<close>\<close>

fun trimmed_string_or :: "jsval \<Rightarrow> jsval \<Rightarrow> jsval" where
  "trimmed_string_or (VStr s) fallback = VStr (trim s)"
| "trimmed_string_or v fallback = fallback"

fun string_or :: "jsval \<Rightarrow> jsval \<Rightarrow> jsval" where
  "string_or (VStr s) fallback = VStr s"
| "string_or v fallback = fallback"

text \<open>
  \<^verbatim>\<open>sanitizeSettings(input, base)\<close>: \<open>fb\<close> is its local object \<^verbatim>\<open>fallback\<close>, the fields of
  \<open>base\<close> where they are valid and the form defaults where they are not.
\<close>

definition sanitize_fallback :: "obj \<Rightarrow> obj" where
  "sanitize_fallback base =
     [''minWatchPercent'' \<mapsto> clampNumber (getp base ''minWatchPercent'') 10 80 (getp FORM_DEFAULTS ''minWatchPercent''),
      ''minWatchTimeSeconds'' \<mapsto> ensureSeconds (getp base ''minWatchTimeSeconds'') (getp FORM_DEFAULTS ''minWatchTimeSeconds''),
      ''trackAutoplay'' \<mapsto> parseBoolean (getp base ''trackAutoplay'') (getp FORM_DEFAULTS ''trackAutoplay''),
      ''countHiddenTime'' \<mapsto> parseBoolean (getp base ''countHiddenTime'') (getp FORM_DEFAULTS ''countHiddenTime''),
      ''dataRetention'' \<mapsto> (if getp base ''dataRetention'' \<in> set RETENTION_OPTIONS
                               then getp base ''dataRetention'' else getp FORM_DEFAULTS ''dataRetention''),
      ''aiFeaturesEnabled'' \<mapsto> parseBoolean (getp base ''aiFeaturesEnabled'') (getp FORM_DEFAULTS ''aiFeaturesEnabled''),
      ''openRouterApiKey'' \<mapsto> string_or (getp base ''openRouterApiKey'') (getp FORM_DEFAULTS ''openRouterApiKey''),
      ''trackingEnabled'' \<mapsto> parseBoolean (getp base ''trackingEnabled'') (getp FORM_DEFAULTS ''trackingEnabled'')]"

definition sanitizeSettings :: "platform \<Rightarrow> obj \<Rightarrow> obj \<Rightarrow> obj" where
  "sanitizeSettings pf input base =
     (let fb = sanitize_fallback base in
      base ++
        [''minWatchPercent'' \<mapsto> clampNumber (ToNumber pf (getp input ''minWatchPercent'')) 10 80 (getp fb ''minWatchPercent''),
         ''minWatchTimeSeconds'' \<mapsto> ensureSeconds (ToNumber pf (getp input ''minWatchTimeSeconds'')) (getp fb ''minWatchTimeSeconds''),
         ''trackAutoplay'' \<mapsto> parseBoolean (getp input ''trackAutoplay'') (getp fb ''trackAutoplay''),
         ''countHiddenTime'' \<mapsto> parseBoolean (getp input ''countHiddenTime'') (getp fb ''countHiddenTime''),
         ''dataRetention'' \<mapsto> (if getp input ''dataRetention'' \<in> set RETENTION_OPTIONS
                                  then getp input ''dataRetention'' else getp fb ''dataRetention''),
         ''aiFeaturesEnabled'' \<mapsto> parseBoolean (getp input ''aiFeaturesEnabled'') (getp fb ''aiFeaturesEnabled''),
         ''openRouterApiKey'' \<mapsto> trimmed_string_or (getp input ''openRouterApiKey'') (getp fb ''openRouterApiKey''),
         ''trackingEnabled'' \<mapsto> parseBoolean (getp input ''trackingEnabled'') (getp fb ''trackingEnabled'')])"

definition areSettingsEqual :: "platform \<Rightarrow> obj \<Rightarrow> obj \<Rightarrow> bool" where
  "areSettingsEqual pf a b = (JSON_stringify pf a = JSON_stringify pf b)"

text \<open>
  The dashboard keeps the settings it shows in \<^verbatim>\<open>state.settings\<close>; the functions below take
  and return that object together with the store. Of \<^verbatim>\<open>loadInitialData\<close> the part about the
  settings is modelled. \<^verbatim>\<open>populateSettingsForm\<close> sanitizes \<^verbatim>\<open>state.settings\<close> once more
  before it fills the form.
\<close>

definition populateSettingsForm :: "platform \<Rightarrow> obj \<Rightarrow> obj" where
  "populateSettingsForm pf state_settings = sanitizeSettings pf state_settings FORM_DEFAULTS"

definition loadInitialData :: "platform \<Rightarrow> storage \<Rightarrow> obj \<times> storage" where
  "loadInitialData pf st =
     (let storedSettings = getSettings st;
          sanitizedSettings = sanitizeSettings pf storedSettings FORM_DEFAULTS;
          st' = (if \<not> areSettingsEqual pf sanitizedSettings storedSettings
                 then saveSettings sanitizedSettings st else st)
      in (populateSettingsForm pf sanitizedSettings, st'))"

text \<open>
  \<^verbatim>\<open>formData.get(name)\<close>: the text of the form field, or \<^verbatim>\<open>null\<close> when the form has no such
  field. \<open>rawSettings\<close> is the object of that name that \<^verbatim>\<open>handleSettingsSubmit\<close> builds from
  the form; \<^verbatim>\<open>minutes * 60\<close> is taken on a finite number only.
\<close>

definition formData_get :: "obj \<Rightarrow> string \<Rightarrow> jsval" where
  "formData_get form name = (case form name of None \<Rightarrow> VNull | Some v \<Rightarrow> v)"

definition rawSettings :: "platform \<Rightarrow> obj \<Rightarrow> obj \<Rightarrow> obj" where
  "rawSettings pf form state_settings =
     (let minutes = ToNumber pf (formData_get form ''settingWatchMinutes'') in
      [''minWatchPercent'' \<mapsto> ToNumber pf (formData_get form ''settingWatchPercent''),
       ''minWatchTimeSeconds'' \<mapsto> (case minutes of VNum m \<Rightarrow> VNum (m * 60) | _ \<Rightarrow> VNaN),
       ''trackAutoplay'' \<mapsto> formData_get form ''settingTrackAutoplay'',
       ''countHiddenTime'' \<mapsto> formData_get form ''settingHiddenTime'',
       ''dataRetention'' \<mapsto> formData_get form ''settingRetention'',
       ''aiFeaturesEnabled'' \<mapsto> formData_get form ''settingAiEnabled'',
       ''openRouterApiKey'' \<mapsto> formData_get form ''settingApiKey'',
       ''trackingEnabled'' \<mapsto> getp state_settings ''trackingEnabled''])"

definition handleSettingsSubmit :: "platform \<Rightarrow> obj \<Rightarrow> obj \<times> storage \<Rightarrow> obj \<times> storage" where
  "handleSettingsSubmit pf form state =
     (case state of
        (state_settings, st) \<Rightarrow>
          let sanitized = sanitizeSettings pf (rawSettings pf form state_settings) state_settings
          in (populateSettingsForm pf sanitized, saveSettings sanitized st))"

text \<open>Validity of a settings value, field by field, as \<^verbatim>\<open>sanitizeSettings\<close> tests it.\<close>

fun in_range :: "real \<Rightarrow> real \<Rightarrow> jsval \<Rightarrow> bool" where
  "in_range lo hi (VNum r) = (lo \<le> r \<and> r \<le> hi)"
| "in_range lo hi v = False"

fun at_least_60 :: "jsval \<Rightarrow> bool" where
  "at_least_60 (VNum r) = (60 \<le> r)"
| "at_least_60 v = False"

fun boolean_like :: "jsval \<Rightarrow> bool" where
  "boolean_like (VBool b) = True"
| "boolean_like (VStr s) = (s = ''true'' \<or> s = ''false'')"
| "boolean_like v = False"

fun is_string :: "jsval \<Rightarrow> bool" where
  "is_string (VStr s) = True"
| "is_string v = False"

fun is_boolean :: "jsval \<Rightarrow> bool" where
  "is_boolean (VBool b) = True"
| "is_boolean v = False"

section \<open>Sample inputs\<close>

text \<open>Concrete objects and stores on which the theorems below are instantiated.\<close>

definition empty_storage :: storage where
  "empty_storage = \<lparr>st_videos = None, st_settings = None, st_reportCache = None\<rparr>"

definition sample_stored_video :: obj where
  "sample_stored_video =
     [''videoId'' \<mapsto> VStr ''abc'', ''title'' \<mapsto> VStr ''old'', ''rewatchCount'' \<mapsto> VNum 5]"

definition sample_storage :: storage where
  "sample_storage = \<lparr>st_videos = Some [sample_stored_video], st_settings = None, st_reportCache = None\<rparr>"

definition sample_event :: obj where
  "sample_event =
     [''videoId'' \<mapsto> VStr ''abc'', ''title'' \<mapsto> VStr ''new'', ''thumbnail'' \<mapsto> VStr ''t1'',
      ''rewatchCount'' \<mapsto> VNum 1]"

definition sample_event2 :: obj where
  "sample_event2 =
     [''videoId'' \<mapsto> VStr ''abc'', ''title'' \<mapsto> VStr ''again'', ''thumbnail'' \<mapsto> VStr ''t2'',
      ''rewatchCount'' \<mapsto> VNum 1]"




text \<open>
  A session in the sampling state with the default thresholds (40 percent, 300 seconds):
  position \<open>ct\<close> in a video of \<open>d\<close> seconds, \<open>ws\<close> seconds watched so far.
\<close>

definition sampling :: "real \<Rightarrow> real \<Rightarrow> real \<Rightarrow> tracker" where
  "sampling ct d ws =
     \<lparr>settings = DEFAULT_THRESHOLDS, currentVideoId = Some ''abc'', watchTimer = True,
      player = Some \<lparr>currentTime = ct, duration = Some d, paused = False, ended = False\<rparr>,
      watchedSeconds = ws, hasRecorded = False, autoplayDetected = False,
      interactionCaptured = False, videoStartTimestamp = 0\<rparr>"

text \<open>
  Two sessions in the sampling state with the percent threshold set to 50 (and 300 seconds),
  in a video of 600.5 seconds with 10 seconds watched: one at position 300, one at position
  150.
\<close>

definition sample_page :: page where
  "sample_page =
     \<lparr>pg_title = ''Game'', pg_channelName = ''x'', pg_channelId = ''c1'',
      pg_nowISO = ''2024-01-01T00:00:00.000Z''\<rparr>"

definition sample_player_half :: player where
  "sample_player_half = \<lparr>currentTime = 300, duration = Some 600.5, paused = False, ended = False\<rparr>"

definition sample_player_quarter :: player where
  "sample_player_quarter = \<lparr>currentTime = 150, duration = Some 600.5, paused = False, ended = False\<rparr>"

definition sample_session :: "player \<Rightarrow> tracker" where
  "sample_session p =
     \<lparr>settings = DEFAULT_THRESHOLDS(''minWatchPercent'' \<mapsto> VNum 50), currentVideoId = Some ''abc'',
      watchTimer = True, player = Some p, watchedSeconds = 10, hasRecorded = False,
      autoplayDetected = False, interactionCaptured = False, videoStartTimestamp = 0\<rparr>"

text \<open>
  A platform and classifiers for the closed examples. Of the platform \<open>JSON_parse\<close> is
  consulted there on the two texts of its table and on a text that is not JSON, and
  \<open>StringToNumber\<close> on \<open>200\<close>, \<open>5\<close> and a text that is not a number; on these they answer as
  \<^verbatim>\<open>JSON.parse\<close> and \<^verbatim>\<open>Number\<close> do. \<open>JSON_stringify\<close> is compared with itself only.
  \<open>round_double\<close> returns its argument: the evaluations consult it on \<open>1/2\<close>, \<open>1/4\<close>, \<open>50\<close>
  and \<open>25\<close>, which are doubles and their own roundings.
\<close>

definition sample_answer :: string where
  \<open>sample_answer = ''{"confidence":"high"}''\<close>

definition sample_JSON_parse :: "string \<Rightarrow> json_top option" where
  "sample_JSON_parse =
     [sample_answer \<mapsto> JObject [''confidence'' \<mapsto> VStr ''high''],
      ''{}'' \<mapsto> JObject Map.empty]"

definition sample_StringToNumber :: "string \<Rightarrow> real option" where
  "sample_StringToNumber = [''200'' \<mapsto> 200, ''5'' \<mapsto> 5]"

definition sample_platform :: platform where
  "sample_platform =
     \<lparr>JSON_parse = sample_JSON_parse, StringToNumber = sample_StringToNumber,
      Number_toString = (\<lambda>r. ''''), Date_getTime = (\<lambda>v. None), JSON_stringify = (\<lambda>ob. ''''),
      round_double = (\<lambda>x. x)\<rparr>"

definition unreachable :: world where
  "unreachable = (\<lambda>n. NetworkFailure)"


definition idle_worker :: "storage \<Rightarrow> worker" where
  "idle_worker st = \<lparr>store = st, aiQueue = [], queueProcessing = False, calls = []\<rparr>"

definition sample_settings_ai :: obj where
  "sample_settings_ai = [''aiFeaturesEnabled'' \<mapsto> VBool True, ''openRouterApiKey'' \<mapsto> VStr ''sk-or-1'']"

definition sample_storage_ai :: storage where
  "sample_storage_ai =
     \<lparr>st_videos = Some [sample_stored_video], st_settings = Some sample_settings_ai, st_reportCache = None\<rparr>"

definition sample_storage_off :: storage where
  "sample_storage_off =
     \<lparr>st_videos = None, st_settings = Some [''trackingEnabled'' \<mapsto> VBool False], st_reportCache = None\<rparr>"

definition sample_job :: obj where
  "sample_job = [''videoId'' \<mapsto> VStr ''abc'', ''title'' \<mapsto> VStr ''Game'', ''channelName'' \<mapsto> VStr ''x'']"

definition sample_job_plain :: obj where
  "sample_job_plain = [''videoId'' \<mapsto> VStr ''abc'', ''title'' \<mapsto> VStr ''Lo-fi'', ''channelName'' \<mapsto> VStr ''x'']"

text \<open>Stored settings with custom thresholds and a key, and a form that submits invalid values.\<close>

definition sample_custom_settings :: obj where
  "sample_custom_settings =
     [''minWatchPercent'' \<mapsto> VNum 55, ''minWatchTimeSeconds'' \<mapsto> VNum 120,
      ''dataRetention'' \<mapsto> VStr ''6m'', ''openRouterApiKey'' \<mapsto> VStr ''sk-or-1'',
      ''trackAutoplay'' \<mapsto> VBool False]"

definition sample_storage_custom :: storage where
  "sample_storage_custom =
     \<lparr>st_videos = None, st_settings = Some sample_custom_settings, st_reportCache = None\<rparr>"

definition sample_bad_form :: obj where
  "sample_bad_form =
     [''settingWatchPercent'' \<mapsto> VStr ''200'', ''settingWatchMinutes'' \<mapsto> VStr ''abc'',
      ''settingRetention'' \<mapsto> VStr ''2y'', ''settingTrackAutoplay'' \<mapsto> VStr ''maybe'']"

section \<open>Basic facts about objects, lists and the store\<close>

lemma map_add_same: "m ++ m = (m :: 'a \<rightharpoonup> 'b)"
  by (rule ext) (simp add: map_add_def split: option.splits)

lemma getSettings_saveSettings: "getSettings (saveSettings p s) = DEFAULT_SETTINGS ++ p"
  by (simp add: saveSettings_def getSettings_def map_add_same)

lemma findIndex_None_iff: "findIndex P xs = None \<longleftrightarrow> (\<forall>x \<in> set xs. \<not> P x)"
  by (induction xs) auto

lemma findIndex_Some:
  "findIndex P xs = Some i \<Longrightarrow> i < length xs \<and> P (xs ! i) \<and> (\<forall>j < i. \<not> P (xs ! j))"
proof (induction xs arbitrary: i)
  case Nil
  then show ?case by simp
next
  case (Cons x xs)
  show ?case
  proof (cases "P x")
    case True
    with Cons.prems show ?thesis by simp
  next
    case False
    with Cons.prems obtain j where j: "findIndex P xs = Some j" "i = Suc j"
      by auto
    from Cons.IH [OF j(1)] False j(2) show ?thesis
      by (auto simp: less_Suc_eq_0_disj)
  qed
qed

lemma strict_eq_VStr [simp]: "strict_eq a (VStr s) \<longleftrightarrow> a = VStr s"
  by (auto simp: strict_eq_def)

lemma getp_map_add: "getp (a ++ b) k = (if k \<in> dom b then getp b k else getp a k)"
  by (auto simp: getp_def map_add_def split: option.splits)

lemma getp_upd: "getp (a(k \<mapsto> v)) k' = (if k' = k then v else getp a k')"
  by (simp add: getp_def)

lemma getp_dom: "getp e k = VStr s \<Longrightarrow> k \<in> dom e"
  by (auto simp: getp_def split: option.splits)

section \<open>Saving settings overwrites what was stored\<close>

lemma getSettings_toggle:
  "getSettings (snd (trackingToggle_click ps s))
     = DEFAULT_SETTINGS(''trackingEnabled'' \<mapsto> VBool (\<not> trackingEnabled ps))"
  by (simp add: trackingToggle_click_def Let_def getSettings_saveSettings)

text \<open>
  C10. Whatever settings \<open>s\<close> are stored, after \<open>saveSettings p\<close> the persisted settings are the
  hardcoded defaults overlaid with exactly the fields of \<open>p\<close>: a field absent from \<open>p\<close> holds
  its default, whatever it held in \<open>s\<close>. The popup's tracking toggle saves only
  \<open>trackingEnabled\<close>, so after a click every other setting, the API key and the thresholds
  included, is back at its default.
\<close>

theorem saveSettings_resets_absent_fields:
  "st_settings (saveSettings p s) = Some (DEFAULT_SETTINGS ++ p)
   \<and> getSettings (saveSettings p s) = DEFAULT_SETTINGS ++ p
   \<and> (\<forall>k. getSettings (saveSettings p s) k = (case p k of Some v \<Rightarrow> Some v | None \<Rightarrow> DEFAULT_SETTINGS k))
   \<and> getSettings (snd (trackingToggle_click ps s))
       = DEFAULT_SETTINGS(''trackingEnabled'' \<mapsto> VBool (\<not> trackingEnabled ps))
   \<and> getp (getSettings (snd (trackingToggle_click ps s))) ''openRouterApiKey'' = VStr ''''
   \<and> getp (getSettings (snd (trackingToggle_click ps s))) ''minWatchPercent'' = VNum 40
   \<and> getp (getSettings (snd (trackingToggle_click ps s))) ''minWatchTimeSeconds'' = VNum 300"
proof -
  have a: "st_settings (saveSettings p s) = Some (DEFAULT_SETTINGS ++ p)"
    by (simp add: saveSettings_def)
  have b: "\<forall>k. getSettings (saveSettings p s) k
             = (case p k of Some v \<Rightarrow> Some v | None \<Rightarrow> DEFAULT_SETTINGS k)"
    by (simp add: getSettings_saveSettings map_add_def split: option.splits)
  have c: "getp (getSettings (snd (trackingToggle_click ps s))) ''openRouterApiKey'' = VStr ''''"
    by (simp add: getSettings_toggle getp_def DEFAULT_SETTINGS_def)
  have d: "getp (getSettings (snd (trackingToggle_click ps s))) ''minWatchPercent'' = VNum 40"
    by (simp add: getSettings_toggle getp_def DEFAULT_SETTINGS_def)
  have e: "getp (getSettings (snd (trackingToggle_click ps s))) ''minWatchTimeSeconds'' = VNum 300"
    by (simp add: getSettings_toggle getp_def DEFAULT_SETTINGS_def)
  from a b c d e show ?thesis
    using getSettings_saveSettings [of p s] getSettings_toggle [of ps s] by blast
qed

section \<open>A submitted setting that is not valid\<close>

lemma getp_FORM_DEFAULTS:
  "getp FORM_DEFAULTS ''minWatchPercent'' = VNum 40"
  "getp FORM_DEFAULTS ''minWatchTimeSeconds'' = VNum 300"
  "getp FORM_DEFAULTS ''trackAutoplay'' = VBool True"
  "getp FORM_DEFAULTS ''countHiddenTime'' = VBool True"
  "getp FORM_DEFAULTS ''dataRetention'' = VStr ''all''"
  "getp FORM_DEFAULTS ''aiFeaturesEnabled'' = VBool True"
  "getp FORM_DEFAULTS ''openRouterApiKey'' = VStr []"
  "getp FORM_DEFAULTS ''trackingEnabled'' = VBool True"
  by (simp_all add: FORM_DEFAULTS_def getp_def)

lemma getp_sanitize_fallback:
  "getp (sanitize_fallback base) ''minWatchPercent'' = clampNumber (getp base ''minWatchPercent'') 10 80 (VNum 40)"
  "getp (sanitize_fallback base) ''minWatchTimeSeconds'' = ensureSeconds (getp base ''minWatchTimeSeconds'') (VNum 300)"
  "getp (sanitize_fallback base) ''trackAutoplay'' = parseBoolean (getp base ''trackAutoplay'') (VBool True)"
  "getp (sanitize_fallback base) ''countHiddenTime'' = parseBoolean (getp base ''countHiddenTime'') (VBool True)"
  "getp (sanitize_fallback base) ''dataRetention'' =
     (if getp base ''dataRetention'' \<in> set RETENTION_OPTIONS then getp base ''dataRetention'' else VStr ''all'')"
  "getp (sanitize_fallback base) ''aiFeaturesEnabled'' = parseBoolean (getp base ''aiFeaturesEnabled'') (VBool True)"
  "getp (sanitize_fallback base) ''openRouterApiKey'' = string_or (getp base ''openRouterApiKey'') (VStr [])"
  by (simp_all add: sanitize_fallback_def getp_upd getp_FORM_DEFAULTS)

lemma getp_sanitizeSettings:
  "getp (sanitizeSettings pf input base) ''minWatchPercent'' =
     clampNumber (ToNumber pf (getp input ''minWatchPercent'')) 10 80
       (clampNumber (getp base ''minWatchPercent'') 10 80 (VNum 40))"
  "getp (sanitizeSettings pf input base) ''minWatchTimeSeconds'' =
     ensureSeconds (ToNumber pf (getp input ''minWatchTimeSeconds''))
       (ensureSeconds (getp base ''minWatchTimeSeconds'') (VNum 300))"
  "getp (sanitizeSettings pf input base) ''trackAutoplay'' =
     parseBoolean (getp input ''trackAutoplay'') (parseBoolean (getp base ''trackAutoplay'') (VBool True))"
  "getp (sanitizeSettings pf input base) ''countHiddenTime'' =
     parseBoolean (getp input ''countHiddenTime'') (parseBoolean (getp base ''countHiddenTime'') (VBool True))"
  "getp (sanitizeSettings pf input base) ''dataRetention'' =
     (if getp input ''dataRetention'' \<in> set RETENTION_OPTIONS then getp input ''dataRetention''
      else if getp base ''dataRetention'' \<in> set RETENTION_OPTIONS then getp base ''dataRetention''
      else VStr ''all'')"
  "getp (sanitizeSettings pf input base) ''aiFeaturesEnabled'' =
     parseBoolean (getp input ''aiFeaturesEnabled'') (parseBoolean (getp base ''aiFeaturesEnabled'') (VBool True))"
  "getp (sanitizeSettings pf input base) ''openRouterApiKey'' =
     trimmed_string_or (getp input ''openRouterApiKey'') (string_or (getp base ''openRouterApiKey'') (VStr []))"
  by (simp_all add: sanitizeSettings_def Let_def getp_map_add getp_upd getp_sanitize_fallback)

lemma dom_sanitizeSettings:
  "{''minWatchPercent'', ''minWatchTimeSeconds'', ''trackAutoplay'', ''countHiddenTime'',
    ''dataRetention'', ''aiFeaturesEnabled'', ''openRouterApiKey'', ''trackingEnabled''}
   \<subseteq> dom (sanitizeSettings pf input base)"
  by (simp add: sanitizeSettings_def Let_def)

lemma getp_saved:
  "k \<in> dom s \<Longrightarrow> getp (getSettings (saveSettings s st)) k = getp s k"
  by (simp add: getSettings_saveSettings getp_map_add)

lemma getp_rawSettings:
  "getp (rawSettings pf form ss) ''minWatchPercent'' = ToNumber pf (formData_get form ''settingWatchPercent'')"
  "getp (rawSettings pf form ss) ''minWatchTimeSeconds'' =
     (case ToNumber pf (formData_get form ''settingWatchMinutes'') of VNum m \<Rightarrow> VNum (m * 60) | _ \<Rightarrow> VNaN)"
  "getp (rawSettings pf form ss) ''trackAutoplay'' = formData_get form ''settingTrackAutoplay''"
  "getp (rawSettings pf form ss) ''countHiddenTime'' = formData_get form ''settingHiddenTime''"
  "getp (rawSettings pf form ss) ''dataRetention'' = formData_get form ''settingRetention''"
  "getp (rawSettings pf form ss) ''aiFeaturesEnabled'' = formData_get form ''settingAiEnabled''"
  "getp (rawSettings pf form ss) ''openRouterApiKey'' = formData_get form ''settingApiKey''"
  by (simp_all add: rawSettings_def Let_def getp_upd)

lemma fst_loadInitialData:
  "fst (loadInitialData pf st) =
     sanitizeSettings pf (sanitizeSettings pf (getSettings st) FORM_DEFAULTS) FORM_DEFAULTS"
  by (simp add: loadInitialData_def Let_def populateSettingsForm_def)

lemma persisted_after_submit:
  assumes "k \<in> {''minWatchPercent'', ''minWatchTimeSeconds'', ''trackAutoplay'', ''countHiddenTime'',
    ''dataRetention'', ''aiFeaturesEnabled'', ''openRouterApiKey'', ''trackingEnabled''}"
  shows "getp (getSettings (snd (handleSettingsSubmit pf form (loadInitialData pf st)))) k =
     getp (sanitizeSettings pf (rawSettings pf form (fst (loadInitialData pf st)))
             (fst (loadInitialData pf st))) k"
proof -
  obtain ss st1 where l: "loadInitialData pf st = (ss, st1)" by (cases "loadInitialData pf st")
  from assms dom_sanitizeSettings [of pf "rawSettings pf form ss" ss]
  have "k \<in> dom (sanitizeSettings pf (rawSettings pf form ss) ss)" by blast
  then show ?thesis
    by (simp add: l handleSettingsSubmit_def Let_def getp_saved)
qed

lemma ToNumber_idem: "ToNumber pf (ToNumber pf v) = ToNumber pf v"
  by (cases v) (simp_all split: option.splits)

lemma clampNumber_invalid: "\<not> in_range lo hi x \<Longrightarrow> clampNumber x lo hi fb = fb"
  by (cases x) auto

lemma ensureSeconds_invalid: "\<not> at_least_60 x \<Longrightarrow> ensureSeconds x fb = fb"
  by (cases x) simp_all

lemma parseBoolean_invalid: "\<not> boolean_like x \<Longrightarrow> parseBoolean x fb = fb"
  by (cases x) simp_all

lemma trimmed_string_or_invalid: "\<not> is_string x \<Longrightarrow> trimmed_string_or x fb = fb"
  by (cases x) simp_all

lemma loaded_fields:
  "in_range 10 80 (getp (getSettings st) ''minWatchPercent'')
   \<Longrightarrow> getp (fst (loadInitialData pf st)) ''minWatchPercent'' = getp (getSettings st) ''minWatchPercent''"
  "at_least_60 (getp (getSettings st) ''minWatchTimeSeconds'')
   \<Longrightarrow> getp (fst (loadInitialData pf st)) ''minWatchTimeSeconds'' = getp (getSettings st) ''minWatchTimeSeconds''"
  "is_boolean (getp (getSettings st) ''trackAutoplay'')
   \<Longrightarrow> getp (fst (loadInitialData pf st)) ''trackAutoplay'' = getp (getSettings st) ''trackAutoplay''"
  "is_boolean (getp (getSettings st) ''countHiddenTime'')
   \<Longrightarrow> getp (fst (loadInitialData pf st)) ''countHiddenTime'' = getp (getSettings st) ''countHiddenTime''"
  "getp (getSettings st) ''dataRetention'' \<in> set RETENTION_OPTIONS
   \<Longrightarrow> getp (fst (loadInitialData pf st)) ''dataRetention'' = getp (getSettings st) ''dataRetention''"
  "is_boolean (getp (getSettings st) ''aiFeaturesEnabled'')
   \<Longrightarrow> getp (fst (loadInitialData pf st)) ''aiFeaturesEnabled'' = getp (getSettings st) ''aiFeaturesEnabled''"
  "getp (getSettings st) ''openRouterApiKey'' = VStr k \<Longrightarrow> trim k = k
   \<Longrightarrow> getp (fst (loadInitialData pf st)) ''openRouterApiKey'' = VStr k"
proof -
  show "in_range 10 80 (getp (getSettings st) ''minWatchPercent'')
   \<Longrightarrow> getp (fst (loadInitialData pf st)) ''minWatchPercent'' = getp (getSettings st) ''minWatchPercent''"
    by (cases "getp (getSettings st) ''minWatchPercent''")
       (simp_all add: fst_loadInitialData getp_sanitizeSettings getp_FORM_DEFAULTS)
  show "at_least_60 (getp (getSettings st) ''minWatchTimeSeconds'')
   \<Longrightarrow> getp (fst (loadInitialData pf st)) ''minWatchTimeSeconds'' = getp (getSettings st) ''minWatchTimeSeconds''"
    by (cases "getp (getSettings st) ''minWatchTimeSeconds''")
       (simp_all add: fst_loadInitialData getp_sanitizeSettings getp_FORM_DEFAULTS)
  show "is_boolean (getp (getSettings st) ''trackAutoplay'')
   \<Longrightarrow> getp (fst (loadInitialData pf st)) ''trackAutoplay'' = getp (getSettings st) ''trackAutoplay''"
    by (cases "getp (getSettings st) ''trackAutoplay''")
       (simp_all add: fst_loadInitialData getp_sanitizeSettings getp_FORM_DEFAULTS)
  show "is_boolean (getp (getSettings st) ''countHiddenTime'')
   \<Longrightarrow> getp (fst (loadInitialData pf st)) ''countHiddenTime'' = getp (getSettings st) ''countHiddenTime''"
    by (cases "getp (getSettings st) ''countHiddenTime''")
       (simp_all add: fst_loadInitialData getp_sanitizeSettings getp_FORM_DEFAULTS)
  show "getp (getSettings st) ''dataRetention'' \<in> set RETENTION_OPTIONS
   \<Longrightarrow> getp (fst (loadInitialData pf st)) ''dataRetention'' = getp (getSettings st) ''dataRetention''"
    by (simp add: fst_loadInitialData getp_sanitizeSettings getp_FORM_DEFAULTS)
  show "is_boolean (getp (getSettings st) ''aiFeaturesEnabled'')
   \<Longrightarrow> getp (fst (loadInitialData pf st)) ''aiFeaturesEnabled'' = getp (getSettings st) ''aiFeaturesEnabled''"
    by (cases "getp (getSettings st) ''aiFeaturesEnabled''")
       (simp_all add: fst_loadInitialData getp_sanitizeSettings getp_FORM_DEFAULTS)
  show "getp (getSettings st) ''openRouterApiKey'' = VStr k \<Longrightarrow> trim k = k
   \<Longrightarrow> getp (fst (loadInitialData pf st)) ''openRouterApiKey'' = VStr k"
    by (simp add: fst_loadInitialData getp_sanitizeSettings getp_FORM_DEFAULTS)
qed

text \<open>
  C5. The dashboard has loaded the stored settings and the settings form is submitted.
  For each field of the form: if the submitted value is out of range or wrongly typed and
  the stored value is valid, the value persisted by the save is the stored value, neither
  the submitted one nor the form default. So with a stored \<open>minWatchPercent\<close> between 10 and
  80, submitting 200 leaves the stored percent in place.
\<close>

theorem invalid_field_falls_back:
  "(in_range 10 80 (getp (getSettings st) ''minWatchPercent'')
      \<and> \<not> in_range 10 80 (ToNumber pf (formData_get form ''settingWatchPercent''))
     \<longrightarrow> getp (getSettings (snd (handleSettingsSubmit pf form (loadInitialData pf st)))) ''minWatchPercent''
           = getp (getSettings st) ''minWatchPercent'')
   \<and> (at_least_60 (getp (getSettings st) ''minWatchTimeSeconds'')
      \<and> \<not> at_least_60 (case ToNumber pf (formData_get form ''settingWatchMinutes'') of
                           VNum m \<Rightarrow> VNum (m * 60) | _ \<Rightarrow> VNaN)
     \<longrightarrow> getp (getSettings (snd (handleSettingsSubmit pf form (loadInitialData pf st)))) ''minWatchTimeSeconds''
           = getp (getSettings st) ''minWatchTimeSeconds'')
   \<and> (is_boolean (getp (getSettings st) ''trackAutoplay'')
      \<and> \<not> boolean_like (formData_get form ''settingTrackAutoplay'')
     \<longrightarrow> getp (getSettings (snd (handleSettingsSubmit pf form (loadInitialData pf st)))) ''trackAutoplay''
           = getp (getSettings st) ''trackAutoplay'')
   \<and> (is_boolean (getp (getSettings st) ''countHiddenTime'')
      \<and> \<not> boolean_like (formData_get form ''settingHiddenTime'')
     \<longrightarrow> getp (getSettings (snd (handleSettingsSubmit pf form (loadInitialData pf st)))) ''countHiddenTime''
           = getp (getSettings st) ''countHiddenTime'')
   \<and> (getp (getSettings st) ''dataRetention'' \<in> set RETENTION_OPTIONS
      \<and> formData_get form ''settingRetention'' \<notin> set RETENTION_OPTIONS
     \<longrightarrow> getp (getSettings (snd (handleSettingsSubmit pf form (loadInitialData pf st)))) ''dataRetention''
           = getp (getSettings st) ''dataRetention'')
   \<and> (is_boolean (getp (getSettings st) ''aiFeaturesEnabled'')
      \<and> \<not> boolean_like (formData_get form ''settingAiEnabled'')
     \<longrightarrow> getp (getSettings (snd (handleSettingsSubmit pf form (loadInitialData pf st)))) ''aiFeaturesEnabled''
           = getp (getSettings st) ''aiFeaturesEnabled'')
   \<and> (getp (getSettings st) ''openRouterApiKey'' = VStr k \<and> trim k = k
      \<and> \<not> is_string (formData_get form ''settingApiKey'')
     \<longrightarrow> getp (getSettings (snd (handleSettingsSubmit pf form (loadInitialData pf st)))) ''openRouterApiKey''
           = VStr k)"
proof (intro conjI impI)
  let ?ss = "fst (loadInitialData pf st)"
  let ?P = "getp (getSettings (snd (handleSettingsSubmit pf form (loadInitialData pf st))))"
  {
    assume a: "in_range 10 80 (getp (getSettings st) ''minWatchPercent'')
      \<and> \<not> in_range 10 80 (ToNumber pf (formData_get form ''settingWatchPercent''))"
    then have l: "getp ?ss ''minWatchPercent'' = getp (getSettings st) ''minWatchPercent''"
      by (simp add: loaded_fields)
    from a have "clampNumber (getp (getSettings st) ''minWatchPercent'') 10 80 (VNum 40)
        = getp (getSettings st) ''minWatchPercent''"
      by (cases "getp (getSettings st) ''minWatchPercent''") simp_all
    with a l show "?P ''minWatchPercent'' = getp (getSettings st) ''minWatchPercent''"
      by (simp add: persisted_after_submit getp_sanitizeSettings getp_rawSettings ToNumber_idem
          clampNumber_invalid)
  }
  {
    assume "at_least_60 (getp (getSettings st) ''minWatchTimeSeconds'')
      \<and> \<not> at_least_60 (case ToNumber pf (formData_get form ''settingWatchMinutes'') of
                           VNum m \<Rightarrow> VNum (m * 60) | _ \<Rightarrow> VNaN)"
    then have a: "at_least_60 (getp (getSettings st) ''minWatchTimeSeconds'')
      \<and> \<not> at_least_60 (getp (rawSettings pf form ?ss) ''minWatchTimeSeconds'')"
      by (simp add: getp_rawSettings)
    then have l: "getp ?ss ''minWatchTimeSeconds'' = getp (getSettings st) ''minWatchTimeSeconds''"
      by (simp add: loaded_fields)
    from a have e: "ensureSeconds (getp (getSettings st) ''minWatchTimeSeconds'') (VNum 300)
        = getp (getSettings st) ''minWatchTimeSeconds''"
      by (cases "getp (getSettings st) ''minWatchTimeSeconds''") simp_all
    have n: "ToNumber pf (getp (rawSettings pf form ?ss) ''minWatchTimeSeconds'')
        = getp (rawSettings pf form ?ss) ''minWatchTimeSeconds''"
      by (simp add: getp_rawSettings split: jsval.splits)
    from a l e n show "?P ''minWatchTimeSeconds'' = getp (getSettings st) ''minWatchTimeSeconds''"
      by (simp add: persisted_after_submit getp_sanitizeSettings ensureSeconds_invalid)
  }
  {
    assume a: "is_boolean (getp (getSettings st) ''trackAutoplay'')
      \<and> \<not> boolean_like (formData_get form ''settingTrackAutoplay'')"
    then have l: "getp ?ss ''trackAutoplay'' = getp (getSettings st) ''trackAutoplay''"
      by (simp add: loaded_fields)
    from a have "parseBoolean (getp (getSettings st) ''trackAutoplay'') (VBool True)
        = getp (getSettings st) ''trackAutoplay''"
      by (cases "getp (getSettings st) ''trackAutoplay''") simp_all
    with a l show "?P ''trackAutoplay'' = getp (getSettings st) ''trackAutoplay''"
      by (simp add: persisted_after_submit getp_sanitizeSettings getp_rawSettings parseBoolean_invalid)
  }
  {
    assume a: "is_boolean (getp (getSettings st) ''countHiddenTime'')
      \<and> \<not> boolean_like (formData_get form ''settingHiddenTime'')"
    then have l: "getp ?ss ''countHiddenTime'' = getp (getSettings st) ''countHiddenTime''"
      by (simp add: loaded_fields)
    from a have "parseBoolean (getp (getSettings st) ''countHiddenTime'') (VBool True)
        = getp (getSettings st) ''countHiddenTime''"
      by (cases "getp (getSettings st) ''countHiddenTime''") simp_all
    with a l show "?P ''countHiddenTime'' = getp (getSettings st) ''countHiddenTime''"
      by (simp add: persisted_after_submit getp_sanitizeSettings getp_rawSettings parseBoolean_invalid)
  }
  {
    assume a: "getp (getSettings st) ''dataRetention'' \<in> set RETENTION_OPTIONS
      \<and> formData_get form ''settingRetention'' \<notin> set RETENTION_OPTIONS"
    then have l: "getp ?ss ''dataRetention'' = getp (getSettings st) ''dataRetention''"
      by (simp add: loaded_fields)
    with a show "?P ''dataRetention'' = getp (getSettings st) ''dataRetention''"
      by (simp add: persisted_after_submit getp_sanitizeSettings getp_rawSettings)
  }
  {
    assume a: "is_boolean (getp (getSettings st) ''aiFeaturesEnabled'')
      \<and> \<not> boolean_like (formData_get form ''settingAiEnabled'')"
    then have l: "getp ?ss ''aiFeaturesEnabled'' = getp (getSettings st) ''aiFeaturesEnabled''"
      by (simp add: loaded_fields)
    from a have "parseBoolean (getp (getSettings st) ''aiFeaturesEnabled'') (VBool True)
        = getp (getSettings st) ''aiFeaturesEnabled''"
      by (cases "getp (getSettings st) ''aiFeaturesEnabled''") simp_all
    with a l show "?P ''aiFeaturesEnabled'' = getp (getSettings st) ''aiFeaturesEnabled''"
      by (simp add: persisted_after_submit getp_sanitizeSettings getp_rawSettings parseBoolean_invalid)
  }
  {
    assume a: "getp (getSettings st) ''openRouterApiKey'' = VStr k \<and> trim k = k
      \<and> \<not> is_string (formData_get form ''settingApiKey'')"
    then have l: "getp ?ss ''openRouterApiKey'' = VStr k"
      by (simp add: loaded_fields)
    with a show "?P ''openRouterApiKey'' = VStr k"
      by (simp add: persisted_after_submit getp_sanitizeSettings getp_rawSettings trimmed_string_or_invalid)
  }
qed


lemma sample_custom_facts:
  "getp (getSettings sample_storage_custom) ''minWatchPercent'' = VNum 55"
  "getp (getSettings sample_storage_custom) ''minWatchTimeSeconds'' = VNum 120"
  "getp (getSettings sample_storage_custom) ''trackAutoplay'' = VBool False"
  "getp (getSettings sample_storage_custom) ''dataRetention'' = VStr ''6m''"
  "getp (getSettings sample_storage_custom) ''openRouterApiKey'' = VStr ''sk-or-1''"
  by (simp_all add: sample_storage_custom_def sample_custom_settings_def getSettings_def getp_def)

lemma sample_bad_form_facts:
  "ToNumber sample_platform (formData_get sample_bad_form ''settingWatchPercent'') = VNum 200"
  "ToNumber sample_platform (formData_get sample_bad_form ''settingWatchMinutes'') = VNaN"
  "formData_get sample_bad_form ''settingTrackAutoplay'' = VStr ''maybe''"
  "formData_get sample_bad_form ''settingRetention'' = VStr ''2y''"
  "formData_get sample_bad_form ''settingApiKey'' = VNull"
  by (simp_all add: sample_bad_form_def formData_get_def sample_platform_def sample_StringToNumber_def)

lemma trim_sample_key: "trim ''sk-or-1'' = ''sk-or-1''"
  by code_simp

theorem invalid_field_falls_back_witness:
  "getp (getSettings (snd (handleSettingsSubmit sample_platform sample_bad_form
       (loadInitialData sample_platform sample_storage_custom)))) ''minWatchPercent'' = VNum 55
   \<and> getp (getSettings (snd (handleSettingsSubmit sample_platform sample_bad_form
       (loadInitialData sample_platform sample_storage_custom)))) ''minWatchTimeSeconds'' = VNum 120
   \<and> getp (getSettings (snd (handleSettingsSubmit sample_platform sample_bad_form
       (loadInitialData sample_platform sample_storage_custom)))) ''trackAutoplay'' = VBool False
   \<and> getp (getSettings (snd (handleSettingsSubmit sample_platform sample_bad_form
       (loadInitialData sample_platform sample_storage_custom)))) ''dataRetention'' = VStr ''6m''
   \<and> getp (getSettings (snd (handleSettingsSubmit sample_platform sample_bad_form
       (loadInitialData sample_platform sample_storage_custom)))) ''openRouterApiKey'' = VStr ''sk-or-1''"
proof -
  note T = invalid_field_falls_back [of sample_storage_custom sample_platform sample_bad_form "''sk-or-1''"]
  have 1: "in_range 10 80 (getp (getSettings sample_storage_custom) ''minWatchPercent'')
      \<and> \<not> in_range 10 80 (ToNumber sample_platform (formData_get sample_bad_form ''settingWatchPercent''))"
    by (simp add: sample_custom_facts sample_bad_form_facts)
  have 2: "at_least_60 (getp (getSettings sample_storage_custom) ''minWatchTimeSeconds'')
      \<and> \<not> at_least_60 (case ToNumber sample_platform (formData_get sample_bad_form ''settingWatchMinutes'') of
                           VNum m \<Rightarrow> VNum (m * 60) | _ \<Rightarrow> VNaN)"
    by (simp add: sample_custom_facts sample_bad_form_facts)
  have 3: "is_boolean (getp (getSettings sample_storage_custom) ''trackAutoplay'')
      \<and> \<not> boolean_like (formData_get sample_bad_form ''settingTrackAutoplay'')"
    by (simp add: sample_custom_facts sample_bad_form_facts)
  have 5: "getp (getSettings sample_storage_custom) ''dataRetention'' \<in> set RETENTION_OPTIONS
      \<and> formData_get sample_bad_form ''settingRetention'' \<notin> set RETENTION_OPTIONS"
    by (simp add: sample_custom_facts sample_bad_form_facts RETENTION_OPTIONS_def)
  have 7: "getp (getSettings sample_storage_custom) ''openRouterApiKey'' = VStr ''sk-or-1''
      \<and> trim ''sk-or-1'' = ''sk-or-1''
      \<and> \<not> is_string (formData_get sample_bad_form ''settingApiKey'')"
    by (simp add: sample_custom_facts sample_bad_form_facts trim_sample_key)
  from T [THEN conjunct1] 1 have a: "getp (getSettings (snd (handleSettingsSubmit sample_platform sample_bad_form
       (loadInitialData sample_platform sample_storage_custom)))) ''minWatchPercent'' = VNum 55"
    by (simp add: sample_custom_facts)
  from T [THEN conjunct2, THEN conjunct1] 2
  have b: "getp (getSettings (snd (handleSettingsSubmit sample_platform sample_bad_form
       (loadInitialData sample_platform sample_storage_custom)))) ''minWatchTimeSeconds'' = VNum 120"
    by (simp add: sample_custom_facts)
  from T [THEN conjunct2, THEN conjunct2, THEN conjunct1] 3
  have c: "getp (getSettings (snd (handleSettingsSubmit sample_platform sample_bad_form
       (loadInitialData sample_platform sample_storage_custom)))) ''trackAutoplay'' = VBool False"
    by (simp add: sample_custom_facts)
  from T [THEN conjunct2, THEN conjunct2, THEN conjunct2, THEN conjunct2, THEN conjunct1] 5
  have d: "getp (getSettings (snd (handleSettingsSubmit sample_platform sample_bad_form
       (loadInitialData sample_platform sample_storage_custom)))) ''dataRetention'' = VStr ''6m''"
    by (simp add: sample_custom_facts)
  from T [THEN conjunct2, THEN conjunct2, THEN conjunct2, THEN conjunct2, THEN conjunct2, THEN conjunct2] 7
  have e: "getp (getSettings (snd (handleSettingsSubmit sample_platform sample_bad_form
       (loadInitialData sample_platform sample_storage_custom)))) ''openRouterApiKey'' = VStr ''sk-or-1''"
    by blast
  from a b c d e show ?thesis by blast
qed

section \<open>Upsert of a watch event\<close>

lemma filter_update_unique:
  "distinct (map f xs) \<Longrightarrow> i < length xs \<Longrightarrow> f (xs ! i) = a \<Longrightarrow> f m = a
   \<Longrightarrow> filter (\<lambda>r. f r = a) (xs[i := m]) = [m]"
proof (induction xs arbitrary: i)
  case Nil
  then show ?case by simp
next
  case (Cons x xs)
  show ?case
  proof (cases i)
    case 0
    with Cons.prems have "a \<notin> f ` set xs" by simp
    then have "\<forall>r \<in> set xs. f r \<noteq> a" by blast
    then have "filter (\<lambda>r. f r = a) xs = []" by (simp add: filter_empty_conv)
    with 0 Cons.prems show ?thesis by simp
  next
    case (Suc j)
    with Cons.prems have j: "j < length xs" "f (xs ! j) = a" by simp_all
    from j(1) have "xs ! j \<in> set xs" by simp
    with j(2) have "a \<in> f ` set xs" by blast
    moreover from Cons.prems have "f x \<notin> f ` set xs" by simp
    ultimately have "f x \<noteq> a" by blast
    moreover from Cons.prems have "distinct (map f xs)" by simp
    ultimately show ?thesis using Suc j Cons.prems(4) Cons.IH [of j] by simp
  qed
qed

lemma distinct_same_key:
  "distinct (map f xs) \<Longrightarrow> i < length xs \<Longrightarrow> x \<in> set xs \<Longrightarrow> f (xs ! i) = f x \<Longrightarrow> xs ! i = x"
  by (metis distinct_map in_set_conv_nth inj_on_def nth_mem)

lemma saveVideo_existing:
  assumes e: "getp e ''videoId'' = VStr vid"
    and d: "distinct (map (\<lambda>r. getp r ''videoId'') (getVideos st))"
    and ex: "ex \<in> set (getVideos st)" "getp ex ''videoId'' = VStr vid"
  shows "\<exists>i < length (getVideos st). getVideos st ! i = ex \<and>
     getVideos (saveVideo e st) = (getVideos st)[i :=
        ex ++ e ++ [''rewatchCount'' \<mapsto> add_one (js_or (getp ex ''rewatchCount'') (VNum 1)),
                    ''watchedAt'' \<mapsto> getp e ''watchedAt'']]"
proof -
  let ?P = "\<lambda>item. strict_eq (getp item ''videoId'') (getp e ''videoId'')"
  from ex e have "\<not> (\<forall>x \<in> set (getVideos st). \<not> ?P x)" by auto
  then obtain i where i: "findIndex ?P (getVideos st) = Some i"
    using findIndex_None_iff [of ?P "getVideos st"] by fastforce
  from findIndex_Some [OF i] e have il: "i < length (getVideos st)"
    and ii: "getp (getVideos st ! i) ''videoId'' = VStr vid" by auto
  from distinct_same_key [OF d il ex(1)] ii ex(2) have "getVideos st ! i = ex" by simp
  with i il show ?thesis
    by (auto simp: saveVideo_def Let_def setVideos_def getVideos_def)
qed

lemma saveVideo_fresh:
  assumes e: "getp e ''videoId'' = VStr vid"
    and fresh: "\<forall>r \<in> set (getVideos st). getp r ''videoId'' \<noteq> VStr vid"
  shows "getVideos (saveVideo e st) =
     getVideos st @ [e ++ [''rewatchCount'' \<mapsto> js_or (getp e ''rewatchCount'') (VNum 1)]]"
proof -
  let ?P = "\<lambda>item. strict_eq (getp item ''videoId'') (getp e ''videoId'')"
  from fresh e have "findIndex ?P (getVideos st) = None"
    by (simp add: findIndex_None_iff)
  then show ?thesis
    by (simp add: saveVideo_def Let_def setVideos_def getVideos_def)
qed

text \<open>Upserts keep the invariant of the store: one record per media id.\<close>

lemma saveVideo_keeps_distinct:
  assumes e: "getp e ''videoId'' = VStr vid"
    and d: "distinct (map (\<lambda>r. getp r ''videoId'') (getVideos st))"
  shows "distinct (map (\<lambda>r. getp r ''videoId'') (getVideos (saveVideo e st)))"
proof (cases "\<exists>ex \<in> set (getVideos st). getp ex ''videoId'' = VStr vid")
  case True
  then obtain ex where ex: "ex \<in> set (getVideos st)" "getp ex ''videoId'' = VStr vid" by blast
  let ?m = "ex ++ e ++ [''rewatchCount'' \<mapsto> add_one (js_or (getp ex ''rewatchCount'') (VNum 1)),
                    ''watchedAt'' \<mapsto> getp e ''watchedAt'']"
  from saveVideo_existing [OF e d ex] obtain i where
    i: "i < length (getVideos st)" "getVideos st ! i = ex"
       "getVideos (saveVideo e st) = (getVideos st)[i := ?m]" by blast
  have "getp ?m ''videoId'' = VStr vid"
    using e getp_dom [OF e] by (simp add: getp_map_add getp_upd)
  with i ex have "map (\<lambda>r. getp r ''videoId'') ((getVideos st)[i := ?m])
      = map (\<lambda>r. getp r ''videoId'') (getVideos st)"
    by (simp add: map_update list_update_same_conv)
  with d i(3) show ?thesis by simp
next
  case False
  then have fresh: "\<forall>r \<in> set (getVideos st). getp r ''videoId'' \<noteq> VStr vid" by blast
  let ?r = "e ++ [''rewatchCount'' \<mapsto> js_or (getp e ''rewatchCount'') (VNum 1)]"
  have "getp ?r ''videoId'' = VStr vid" using e by (simp add: getp_upd)
  with fresh have "getp ?r ''videoId'' \<notin> (\<lambda>r. getp r ''videoId'') ` set (getVideos st)"
    by auto
  with d saveVideo_fresh [OF e fresh] show ?thesis by simp
qed

lemma buildVideoPayload_fields:
  "buildVideoPayload pg pw dur p s ''rewatchCount'' = Some (VNum 1)"
  "getp (buildVideoPayload pg pw dur p s) ''rewatchCount'' = VNum 1"
  "currentVideoId s = Some v \<Longrightarrow> getp (buildVideoPayload pg pw dur p s) ''videoId'' = VStr v"
  by (simp_all add: buildVideoPayload_def getp_def)

text \<open>
  C4. Upsert of a watch event \<open>e\<close> with media id \<open>vid\<close>.
  \<^item> The id is already stored (in a store with one record per id, the record \<open>ex\<close> having a
    non-zero count \<open>n\<close>): afterwards there is exactly one record for \<open>vid\<close>, the store has kept
    its length, every field of the event has the event's value except \<open>rewatchCount\<close>, which
    is \<open>n + 1\<close>, and the fields the event does not have are those of \<open>ex\<close>.
  \<^item> The id is fresh: the event is appended with \<^verbatim>\<open>rewatchCount: video.rewatchCount || 1\<close>,
    which is 1 for the events of the detector (they carry \<open>rewatchCount = 1\<close>).
  \<^item> Two upserts of the same id into an empty store leave exactly one record, with
    \<open>rewatchCount = 2\<close> and the fields (title, thumbnail, ...) of the second event.
  \<^item> Every payload that the detector builds carries \<open>rewatchCount = 1\<close>, and its upsert under
    a fresh id appends it unchanged.
\<close>

theorem saveVideo_upsert:
  assumes e: "getp e ''videoId'' = VStr vid"
  shows "(distinct (map (\<lambda>r. getp r ''videoId'') (getVideos st))
          \<and> ex \<in> set (getVideos st) \<and> getp ex ''videoId'' = VStr vid
          \<and> getp ex ''rewatchCount'' = VNum n \<and> n \<noteq> 0
         \<longrightarrow> (\<exists>m. filter (\<lambda>r. getp r ''videoId'' = VStr vid) (getVideos (saveVideo e st)) = [m]
                \<and> length (getVideos (saveVideo e st)) = length (getVideos st)
                \<and> (\<forall>k \<in> dom e. k \<noteq> ''rewatchCount'' \<longrightarrow> m k = e k)
                \<and> (\<forall>k. k \<notin> dom e \<and> k \<noteq> ''rewatchCount'' \<and> k \<noteq> ''watchedAt'' \<longrightarrow> m k = ex k)
                \<and> getp m ''rewatchCount'' = VNum (n + 1)))
       \<and> ((\<forall>r \<in> set (getVideos st). getp r ''videoId'' \<noteq> VStr vid)
         \<longrightarrow> getVideos (saveVideo e st)
               = getVideos st @ [e(''rewatchCount'' \<mapsto> js_or (getp e ''rewatchCount'') (VNum 1))]
             \<and> (getp e ''rewatchCount'' = VNum 1
                  \<longrightarrow> getVideos (saveVideo e st) = getVideos st @ [e(''rewatchCount'' \<mapsto> VNum 1)]))
       \<and> (getVideos st = [] \<and> getp e ''rewatchCount'' = VNum 1 \<and> getp e2 ''videoId'' = VStr vid
         \<longrightarrow> (\<exists>m. getVideos (saveVideo e2 (saveVideo e st)) = [m]
                \<and> getp m ''videoId'' = VStr vid
                \<and> getp m ''rewatchCount'' = VNum 2
                \<and> (\<forall>k \<in> dom e2. k \<noteq> ''rewatchCount'' \<longrightarrow> m k = e2 k)))
       \<and> (currentVideoId s = Some v
            \<and> (\<forall>r \<in> set (getVideos st). getp r ''videoId'' \<noteq> VStr v)
         \<longrightarrow> getp (buildVideoPayload pg pw dur p s) ''rewatchCount'' = VNum 1
             \<and> getVideos (saveVideo (buildVideoPayload pg pw dur p s) st)
                 = getVideos st @ [buildVideoPayload pg pw dur p s])"
proof (intro conjI impI)
  assume a: "distinct (map (\<lambda>r. getp r ''videoId'') (getVideos st))
          \<and> ex \<in> set (getVideos st) \<and> getp ex ''videoId'' = VStr vid
          \<and> getp ex ''rewatchCount'' = VNum n \<and> n \<noteq> 0"
  let ?m = "ex ++ e ++ [''rewatchCount'' \<mapsto> add_one (js_or (getp ex ''rewatchCount'') (VNum 1)),
                    ''watchedAt'' \<mapsto> getp e ''watchedAt'']"
  from a saveVideo_existing [OF e, of st ex] obtain i where
    i: "i < length (getVideos st)" "getVideos st ! i = ex"
       "getVideos (saveVideo e st) = (getVideos st)[i := ?m]" by blast
  have mid: "getp ?m ''videoId'' = VStr vid"
    using e getp_dom [OF e] by (simp add: getp_map_add getp_upd)
  have f: "filter (\<lambda>r. getp r ''videoId'' = VStr vid) (getVideos (saveVideo e st)) = [?m]"
    unfolding i(3)
    by (rule filter_update_unique) (use a i mid in auto)
  have rc: "getp ?m ''rewatchCount'' = VNum (n + 1)"
    using a by (simp add: getp_upd js_or_def)
  have k1: "\<forall>k \<in> dom e. k \<noteq> ''rewatchCount'' \<longrightarrow> ?m k = e k"
    by (auto simp: map_add_def getp_def split: option.splits)
  have k2: "\<forall>k. k \<notin> dom e \<and> k \<noteq> ''rewatchCount'' \<and> k \<noteq> ''watchedAt'' \<longrightarrow> ?m k = ex k"
    by (auto simp: map_add_def split: option.splits)
  from f rc k1 k2 i(3)
  show "\<exists>m. filter (\<lambda>r. getp r ''videoId'' = VStr vid) (getVideos (saveVideo e st)) = [m]
                \<and> length (getVideos (saveVideo e st)) = length (getVideos st)
                \<and> (\<forall>k \<in> dom e. k \<noteq> ''rewatchCount'' \<longrightarrow> m k = e k)
                \<and> (\<forall>k. k \<notin> dom e \<and> k \<noteq> ''rewatchCount'' \<and> k \<noteq> ''watchedAt'' \<longrightarrow> m k = ex k)
                \<and> getp m ''rewatchCount'' = VNum (n + 1)"
    by (intro exI [of _ ?m]) simp
next
  assume fresh: "\<forall>r \<in> set (getVideos st). getp r ''videoId'' \<noteq> VStr vid"
  from saveVideo_fresh [OF e fresh]
  show g: "getVideos (saveVideo e st)
               = getVideos st @ [e(''rewatchCount'' \<mapsto> js_or (getp e ''rewatchCount'') (VNum 1))]"
    by simp
  assume "getp e ''rewatchCount'' = VNum 1"
  with g show "getVideos (saveVideo e st) = getVideos st @ [e(''rewatchCount'' \<mapsto> VNum 1)]"
    by (simp add: js_or_def)
next
  assume a: "getVideos st = [] \<and> getp e ''rewatchCount'' = VNum 1 \<and> getp e2 ''videoId'' = VStr vid"
  let ?r1 = "e(''rewatchCount'' \<mapsto> VNum 1)"
  from a saveVideo_fresh [OF e, of st] have s1: "getVideos (saveVideo e st) = [?r1]"
    by (simp add: js_or_def)
  have r1id: "getp ?r1 ''videoId'' = VStr vid" using e by (simp add: getp_upd)
  let ?m = "?r1 ++ e2 ++ [''rewatchCount'' \<mapsto> add_one (js_or (getp ?r1 ''rewatchCount'') (VNum 1)),
                    ''watchedAt'' \<mapsto> getp e2 ''watchedAt'']"
  from a have e2: "getp e2 ''videoId'' = VStr vid" by simp
  from saveVideo_existing [OF e2, of "saveVideo e st" ?r1] s1 r1id
  have s2: "getVideos (saveVideo e2 (saveVideo e st)) = [?m]" by auto
  have "getp ?m ''videoId'' = VStr vid"
    using e2 getp_dom [OF e2] by (simp add: getp_map_add getp_upd)
  moreover have "getp ?m ''rewatchCount'' = VNum 2"
    by (simp add: getp_upd js_or_def)
  moreover have "\<forall>k \<in> dom e2. k \<noteq> ''rewatchCount'' \<longrightarrow> ?m k = e2 k"
    by (auto simp: map_add_def getp_def split: option.splits)
  ultimately show "\<exists>m. getVideos (saveVideo e2 (saveVideo e st)) = [m]
                \<and> getp m ''videoId'' = VStr vid
                \<and> getp m ''rewatchCount'' = VNum 2
                \<and> (\<forall>k \<in> dom e2. k \<noteq> ''rewatchCount'' \<longrightarrow> m k = e2 k)"
    using s2 by (intro exI [of _ ?m]) simp
next
  assume a: "currentVideoId s = Some v
            \<and> (\<forall>r \<in> set (getVideos st). getp r ''videoId'' \<noteq> VStr v)"
  let ?e = "buildVideoPayload pg pw dur p s"
  show "getp ?e ''rewatchCount'' = VNum 1" by (rule buildVideoPayload_fields(2))
  from a have id: "getp ?e ''videoId'' = VStr v" by (simp add: buildVideoPayload_fields(3))
  have same: "?e(''rewatchCount'' \<mapsto> VNum 1) = ?e"
    by (rule map_upd_triv) (rule buildVideoPayload_fields(1))
  from a saveVideo_fresh [OF id, of st] same
  show "getVideos (saveVideo ?e st) = getVideos st @ [?e]"
    by (simp add: buildVideoPayload_fields(2) js_or_def)
qed

theorem saveVideo_upsert_witness:
  "(\<exists>m. filter (\<lambda>r. getp r ''videoId'' = VStr ''abc'')
          (getVideos (saveVideo sample_event sample_storage)) = [m]
        \<and> getp m ''rewatchCount'' = VNum 6 \<and> m ''title'' = Some (VStr ''new''))
   \<and> getVideos (saveVideo sample_event empty_storage) = [sample_event(''rewatchCount'' \<mapsto> VNum 1)]
   \<and> (\<exists>m. getVideos (saveVideo sample_event2 (saveVideo sample_event empty_storage)) = [m]
        \<and> getp m ''rewatchCount'' = VNum 2
        \<and> m ''title'' = Some (VStr ''again'') \<and> m ''thumbnail'' = Some (VStr ''t2''))
   \<and> (\<forall>pg pw dur p.
         getVideos (saveVideo (buildVideoPayload pg pw dur p (sampling 245 600 245)) empty_storage)
           = [buildVideoPayload pg pw dur p (sampling 245 600 245)])"
proof -
  have h: "getp sample_event ''videoId'' = VStr ''abc''"
    by (simp add: getp_def sample_event_def)
  have h2: "getp sample_event2 ''videoId'' = VStr ''abc''"
    by (simp add: getp_def sample_event2_def)
  have h1: "getp sample_event ''rewatchCount'' = VNum 1"
    by (simp add: getp_def sample_event_def)
  have g1: "getVideos sample_storage = [sample_stored_video]"
    by (simp add: getVideos_def sample_storage_def)
  have g0: "getVideos empty_storage = []"
    by (simp add: getVideos_def empty_storage_def)
  have x: "getp sample_stored_video ''videoId'' = VStr ''abc''"
      "getp sample_stored_video ''rewatchCount'' = VNum 5"
    by (simp_all add: getp_def sample_stored_video_def)
  have t: "''title'' \<in> dom sample_event" "''title'' \<in> dom sample_event2"
      "''thumbnail'' \<in> dom sample_event2"
    by (simp_all add: sample_event_def sample_event2_def)
  have tv: "sample_event ''title'' = Some (VStr ''new'')" "sample_event2 ''title'' = Some (VStr ''again'')"
      "sample_event2 ''thumbnail'' = Some (VStr ''t2'')"
    by (simp_all add: sample_event_def sample_event2_def)
  note T1 = saveVideo_upsert [OF h, of sample_storage sample_stored_video 5 sample_event2]
  note T0 = saveVideo_upsert [OF h, of empty_storage sample_stored_video 5 sample_event2]
  from T1 [THEN conjunct1] g1 x
  obtain m where m: "filter (\<lambda>r. getp r ''videoId'' = VStr ''abc'') (getVideos (saveVideo sample_event sample_storage)) = [m]"
      "\<forall>k \<in> dom sample_event. k \<noteq> ''rewatchCount'' \<longrightarrow> m k = sample_event k"
      "getp m ''rewatchCount'' = VNum (5 + 1)"
    by auto
  from m(2) t(1) tv(1) have "m ''title'' = Some (VStr ''new'')" by auto
  with m(1,3) have A: "\<exists>m. filter (\<lambda>r. getp r ''videoId'' = VStr ''abc'')
          (getVideos (saveVideo sample_event sample_storage)) = [m]
        \<and> getp m ''rewatchCount'' = VNum 6 \<and> m ''title'' = Some (VStr ''new'')"
    by auto
  from T0 [THEN conjunct2, THEN conjunct1] g0 h1
  have B: "getVideos (saveVideo sample_event empty_storage) = [sample_event(''rewatchCount'' \<mapsto> VNum 1)]"
    by (simp add: js_or_def)
  from T0 [THEN conjunct2, THEN conjunct2, THEN conjunct1] g0 h1 h2
  obtain m2 where m2: "getVideos (saveVideo sample_event2 (saveVideo sample_event empty_storage)) = [m2]"
      "getp m2 ''rewatchCount'' = VNum 2"
      "\<forall>k \<in> dom sample_event2. k \<noteq> ''rewatchCount'' \<longrightarrow> m2 k = sample_event2 k"
    by auto
  from m2(3) t(2,3) tv(2,3) have "m2 ''title'' = Some (VStr ''again'')" "m2 ''thumbnail'' = Some (VStr ''t2'')"
    by auto
  with m2(1,2) have C: "\<exists>m. getVideos (saveVideo sample_event2 (saveVideo sample_event empty_storage)) = [m]
        \<and> getp m ''rewatchCount'' = VNum 2
        \<and> m ''title'' = Some (VStr ''again'') \<and> m ''thumbnail'' = Some (VStr ''t2'')"
    by auto
  have D: "\<forall>pg pw dur p.
         getVideos (saveVideo (buildVideoPayload pg pw dur p (sampling 245 600 245)) empty_storage)
           = [buildVideoPayload pg pw dur p (sampling 245 600 245)]"
  proof (intro allI)
    fix pg pw dur p
    have c: "currentVideoId (sampling 245 600 245) = Some ''abc''
        \<and> (\<forall>r \<in> set (getVideos empty_storage). getp r ''videoId'' \<noteq> VStr ''abc'')"
      by (simp add: sampling_def g0)
    from saveVideo_upsert [OF h, of empty_storage sample_stored_video 5 sample_event2
          "sampling 245 600 245" "''abc''" pg pw dur p,
          THEN conjunct2, THEN conjunct2, THEN conjunct2] c g0
    show "getVideos (saveVideo (buildVideoPayload pg pw dur p (sampling 245 600 245)) empty_storage)
           = [buildVideoPayload pg pw dur p (sampling 245 600 245)]"
      by simp
  qed
  from A B C D show ?thesis by blast
qed

section \<open>Import merges by identity\<close>























section \<open>Qualification of a session\<close>

lemma js_ge_VNum [simp]: "js_ge pf x (VNum t) \<longleftrightarrow> t \<le> x"
  by (simp add: js_ge_def)

lemma nullish_or_VNum [simp]: "nullish_or (VNum t) d = VNum t"
  by (simp add: nullish_or_def)

lemma evaluateAndSend_qualifies:
  assumes "player s = Some p" and "\<not> hasRecorded s"
    and "truthy (getp (settings s) ''trackingEnabled'')"
    and "duration p = Some d" and "\<lfloor>d\<rfloor> \<noteq> 0"
    and "getp (settings s) ''minWatchPercent'' = VNum mp"
    and "getp (settings s) ''minWatchTimeSeconds'' = VNum mt"
  shows "snd (evaluateAndSend pf pg s) \<noteq> None
     \<longleftrightarrow> mp \<le> min 100 (round_double pf (round_double pf (currentTime p / of_int \<lfloor>d\<rfloor>) * 100))
         \<or> mt \<le> watchedSeconds s"
  using assms by (simp add: evaluateAndSend_def Let_def)

lemma sampling_simps:
  "player (sampling ct d ws) = Some \<lparr>currentTime = ct, duration = Some d, paused = False, ended = False\<rparr>"
  "\<not> hasRecorded (sampling ct d ws)"
  "truthy (getp (settings (sampling ct d ws)) ''trackingEnabled'')"
  "getp (settings (sampling ct d ws)) ''minWatchPercent'' = VNum 40"
  "getp (settings (sampling ct d ws)) ''minWatchTimeSeconds'' = VNum 300"
  "watchedSeconds (sampling ct d ws) = ws"
  by (simp_all add: sampling_def DEFAULT_THRESHOLDS_def getp_def)

lemma sample_session_simps:
  "player (sample_session p) = Some p"
  "\<not> hasRecorded (sample_session p)"
  "truthy (getp (settings (sample_session p)) ''trackingEnabled'')"
  "getp (settings (sample_session p)) ''minWatchPercent'' = VNum 50"
  "getp (settings (sample_session p)) ''minWatchTimeSeconds'' = VNum 300"
  "watchedSeconds (sample_session p) = 10"
  by (simp_all add: sample_session_def DEFAULT_THRESHOLDS_def getp_def)

lemma sample_player_simps:
  "currentTime sample_player_half = 300"
  "duration sample_player_half = Some 600.5"
  "currentTime sample_player_quarter = 150"
  "duration sample_player_quarter = Some 600.5"
  by (simp_all add: sample_player_half_def sample_player_quarter_def)

lemma floor_600_5: "\<lfloor>600.5 :: real\<rfloor> = 600"
  by linarith

lemma round_double_sample [simp]: "round_double sample_platform x = x"
  by (simp add: sample_platform_def)

lemma double_precision_sample: "double_precision sample_platform"
  by (simp add: double_precision_def)

text \<open>
  Under \<open>double_precision\<close> a rounding moves a value between a thousandth and a thousand by
  less than a millionth of it.
\<close>

lemma double_precision_bounds:
  assumes "double_precision pf" and "1 / 1024 \<le> x" and "x \<le> 1024"
  shows "x - x / 1000000 \<le> round_double pf x" and "round_double pf x \<le> x + x / 1000000"
proof -
  from assms(2) have x: "0 < x" by simp
  then have ax: "\<bar>x\<bar> = x" by simp
  from assms(1) have "1 / 1024 \<le> \<bar>x\<bar> \<and> \<bar>x\<bar> \<le> 1024 \<longrightarrow> \<bar>round_double pf x - x\<bar> \<le> \<bar>x\<bar> / 2 ^ 53"
    unfolding double_precision_def by (rule spec)
  with assms(2,3) ax have e: "\<bar>round_double pf x - x\<bar> \<le> x / 2 ^ 53" by simp
  have "x / 2 ^ 53 \<le> x / 1000000"
    using x by (intro divide_left_mono) simp_all
  with e have "\<bar>round_double pf x - x\<bar> \<le> x / 1000000" by linarith
  then show "x - x / 1000000 \<le> round_double pf x" and "round_double pf x \<le> x + x / 1000000"
    by linarith+
qed

lemma percent_245_of_600:
  assumes "double_precision pf"
  shows "40 \<le> round_double pf (round_double pf (245 / 600) * 100)"
proof -
  let ?q = "round_double pf (245 / 600)"
  from double_precision_bounds [OF assms, of "245 / 600"]
  have "245 / 600 - 245 / 600 / 1000000 \<le> ?q" and "?q \<le> 245 / 600 + 245 / 600 / 1000000"
    by simp_all
  then have q: "408 / 1000 \<le> ?q" "?q \<le> 409 / 1000" by simp_all
  then have r: "1 / 1024 \<le> ?q * 100" "?q * 100 \<le> 1024" by simp_all
  from double_precision_bounds(1) [OF assms r] q show ?thesis by simp
qed

lemma percent_239_of_600:
  assumes "double_precision pf"
  shows "round_double pf (round_double pf (239 / 600) * 100) < 40"
proof -
  let ?q = "round_double pf (239 / 600)"
  from double_precision_bounds [OF assms, of "239 / 600"]
  have "239 / 600 - 239 / 600 / 1000000 \<le> ?q" and "?q \<le> 239 / 600 + 239 / 600 / 1000000"
    by simp_all
  then have q: "398 / 1000 \<le> ?q" "?q \<le> 399 / 1000" by simp_all
  then have r: "1 / 1024 \<le> ?q * 100" "?q * 100 \<le> 1024" by simp_all
  from double_precision_bounds(2) [OF assms r] q show ?thesis by simp
qed

text \<open>
  C2 (amended). An evaluation of a session that has a player, has not recorded yet and has tracking
  enabled, with a duration \<open>d\<close> of at least one second and configured thresholds \<open>mp\<close> and
  \<open>mt\<close>, qualifies (sends the watch event) if and only if
  \<open>min(100, currentTime / floor(d) * 100) \<ge> mp\<close> or \<open>watchedSeconds \<ge> mt\<close>: the percent is
  taken of the duration rounded down to whole seconds, which is what \<^verbatim>\<open>evaluateAndSend\<close>
  keeps of \<^verbatim>\<open>player.duration\<close>, and it is the percent as double arithmetic computes it, the
  quotient rounded and then its product with 100. With a duration of 600 seconds and the
  thresholds 40 and 300, wherever the roundings have the precision of doubles: a session at
  245 seconds qualifies, and a session at 239 seconds with 239 seconds watched does not. A
  session with 300 seconds watched at 10 percent of a longer video qualifies, whatever the
  roundings are. With a duration below one second no evaluation qualifies.
\<close>

theorem threshold_or_semantics:
  "(player s = Some p \<and> \<not> hasRecorded s \<and> truthy (getp (settings s) ''trackingEnabled'')
      \<and> duration p = Some d \<and> 0 < \<lfloor>d\<rfloor>
      \<and> getp (settings s) ''minWatchPercent'' = VNum mp
      \<and> getp (settings s) ''minWatchTimeSeconds'' = VNum mt
     \<longrightarrow> (snd (evaluateAndSend pf pg s) \<noteq> None
           \<longleftrightarrow> mp \<le> min 100 (round_double pf (round_double pf (currentTime p / of_int \<lfloor>d\<rfloor>) * 100))
               \<or> mt \<le> watchedSeconds s))
   \<and> (double_precision pf
        \<longrightarrow> snd (evaluateAndSend pf pg (sampling 245 600 245)) \<noteq> None
          \<and> snd (evaluateAndSend pf pg (sampling 239 600 239)) = None)
   \<and> snd (evaluateAndSend pf pg (sampling 600 6000 300)) \<noteq> None
   \<and> (player s = Some p \<and> duration p = Some d \<and> 0 \<le> d \<and> d < 1
        \<longrightarrow> snd (evaluateAndSend pf pg s) = None)"
proof (intro conjI impI)
  assume a: "player s = Some p \<and> \<not> hasRecorded s \<and> truthy (getp (settings s) ''trackingEnabled'')
      \<and> duration p = Some d \<and> 0 < \<lfloor>d\<rfloor>
      \<and> getp (settings s) ''minWatchPercent'' = VNum mp
      \<and> getp (settings s) ''minWatchTimeSeconds'' = VNum mt"
  from a have "0 < \<lfloor>d\<rfloor>" by blast
  then have nz: "\<lfloor>d\<rfloor> \<noteq> 0" by linarith
  from a show "snd (evaluateAndSend pf pg s) \<noteq> None
     \<longleftrightarrow> mp \<le> min 100 (round_double pf (round_double pf (currentTime p / of_int \<lfloor>d\<rfloor>) * 100))
         \<or> mt \<le> watchedSeconds s"
    by (intro evaluateAndSend_qualifies [OF _ _ _ _ nz]) blast+
next
  assume dp: "double_precision pf"
  from percent_245_of_600 [OF dp]
  show "snd (evaluateAndSend pf pg (sampling 245 600 245)) \<noteq> None"
    using evaluateAndSend_qualifies [where s = "sampling 245 600 245" and d = 600 and mp = 40 and mt = 300
          and pf = pf and pg = pg
          and p = "\<lparr>currentTime = 245, duration = Some 600, paused = False, ended = False\<rparr>"]
    by (simp add: sampling_simps)
next
  assume dp: "double_precision pf"
  from percent_239_of_600 [OF dp]
  show "snd (evaluateAndSend pf pg (sampling 239 600 239)) = None"
    using evaluateAndSend_qualifies [where s = "sampling 239 600 239" and d = 600 and mp = 40 and mt = 300
          and pf = pf and pg = pg
          and p = "\<lparr>currentTime = 239, duration = Some 600, paused = False, ended = False\<rparr>"]
    by (simp add: sampling_simps)
next
  show "snd (evaluateAndSend pf pg (sampling 600 6000 300)) \<noteq> None"
    using evaluateAndSend_qualifies [where s = "sampling 600 6000 300" and d = 6000 and mp = 40 and mt = 300
          and pf = pf and pg = pg
          and p = "\<lparr>currentTime = 600, duration = Some 6000, paused = False, ended = False\<rparr>"]
    by (simp add: sampling_simps)
next
  assume b: "player s = Some p \<and> duration p = Some d \<and> 0 \<le> d \<and> d < 1"
  then have "\<lfloor>d\<rfloor> = 0" by linarith
  with b show "snd (evaluateAndSend pf pg s) = None"
    by (simp add: evaluateAndSend_def)
qed

text \<open>
  The theorem at the two sessions with the percent threshold 50 in a video of 600.5 seconds:
  the one at position 300 qualifies (300 of 600 whole seconds is 50 percent), the one at
  position 150 does not; at the sessions of 600 seconds, on a platform whose roundings have
  the precision of doubles; and at a session with 300 seconds watched in a video of half a
  second.
\<close>

theorem threshold_or_semantics_witness:
  "snd (evaluateAndSend sample_platform sample_page (sample_session sample_player_half)) \<noteq> None
   \<and> snd (evaluateAndSend sample_platform sample_page (sample_session sample_player_quarter)) = None
   \<and> double_precision sample_platform
   \<and> snd (evaluateAndSend sample_platform sample_page (sampling 245 600 245)) \<noteq> None
   \<and> snd (evaluateAndSend sample_platform sample_page (sampling 239 600 239)) = None
   \<and> snd (evaluateAndSend sample_platform sample_page (sampling 0 0.5 300)) = None"
proof (intro conjI)
  let ?s = "sample_session sample_player_half"
  have h: "player ?s = Some sample_player_half \<and> \<not> hasRecorded ?s
      \<and> truthy (getp (settings ?s) ''trackingEnabled'')
      \<and> duration sample_player_half = Some 600.5 \<and> 0 < \<lfloor>600.5 :: real\<rfloor>
      \<and> getp (settings ?s) ''minWatchPercent'' = VNum 50
      \<and> getp (settings ?s) ''minWatchTimeSeconds'' = VNum 300"
    by (simp add: sample_session_simps sample_player_simps floor_600_5)
  from threshold_or_semantics [of ?s sample_player_half "600.5" 50 300 sample_platform sample_page,
      THEN conjunct1] h
  have "snd (evaluateAndSend sample_platform sample_page ?s) \<noteq> None
           \<longleftrightarrow> 50 \<le> min 100 (round_double sample_platform
                   (round_double sample_platform (currentTime sample_player_half / of_int \<lfloor>600.5 :: real\<rfloor>) * 100))
               \<or> 300 \<le> watchedSeconds ?s"
    by blast
  then show "snd (evaluateAndSend sample_platform sample_page ?s) \<noteq> None"
    by (simp add: floor_600_5 sample_session_simps sample_player_simps)
  let ?t = "sample_session sample_player_quarter"
  have h2: "player ?t = Some sample_player_quarter \<and> \<not> hasRecorded ?t
      \<and> truthy (getp (settings ?t) ''trackingEnabled'')
      \<and> duration sample_player_quarter = Some 600.5 \<and> 0 < \<lfloor>600.5 :: real\<rfloor>
      \<and> getp (settings ?t) ''minWatchPercent'' = VNum 50
      \<and> getp (settings ?t) ''minWatchTimeSeconds'' = VNum 300"
    by (simp add: sample_session_simps sample_player_simps floor_600_5)
  from threshold_or_semantics [of ?t sample_player_quarter "600.5" 50 300 sample_platform sample_page,
      THEN conjunct1] h2
  have "snd (evaluateAndSend sample_platform sample_page ?t) \<noteq> None
           \<longleftrightarrow> 50 \<le> min 100 (round_double sample_platform
                   (round_double sample_platform (currentTime sample_player_quarter / of_int \<lfloor>600.5 :: real\<rfloor>) * 100))
               \<or> 300 \<le> watchedSeconds ?t"
    by blast
  then show "snd (evaluateAndSend sample_platform sample_page ?t) = None"
    by (simp add: floor_600_5 sample_session_simps sample_player_simps)
  show dp: "double_precision sample_platform" by (rule double_precision_sample)
  from threshold_or_semantics [of _ _ _ _ _ sample_platform sample_page,
      THEN conjunct2, THEN conjunct1] dp
  show "snd (evaluateAndSend sample_platform sample_page (sampling 245 600 245)) \<noteq> None"
    and "snd (evaluateAndSend sample_platform sample_page (sampling 239 600 239)) = None"
    by blast+
  let ?r = "\<lparr>currentTime = 0, duration = Some 0.5, paused = False, ended = False\<rparr>"
  have h3: "player (sampling 0 0.5 300) = Some ?r \<and> duration ?r = Some 0.5
      \<and> (0 :: real) \<le> 0.5 \<and> (0.5 :: real) < 1"
    by (simp add: sampling_simps)
  from threshold_or_semantics [of "sampling 0 0.5 300" ?r "0.5" _ _ sample_platform sample_page,
      THEN conjunct2, THEN conjunct2, THEN conjunct2] h3
  show "snd (evaluateAndSend sample_platform sample_page (sampling 0 0.5 300)) = None"
    by blast
qed

text \<open>
  The percent is not taken of the duration itself. The session at position 300 of a video of
  600.5 seconds, with 10 seconds watched and the thresholds 50 and 300, is below both
  thresholds by the duration of the video (300 of 600.5 seconds is less than 49.96 percent,
  rounded or not), and it qualifies: of the 600 whole seconds it has 50 percent.
\<close>

theorem floor_of_duration_decides:
  "player (sample_session sample_player_half) = Some sample_player_half
   \<and> \<not> hasRecorded (sample_session sample_player_half)
   \<and> truthy (getp (settings (sample_session sample_player_half)) ''trackingEnabled'')
   \<and> getp (settings (sample_session sample_player_half)) ''minWatchPercent'' = VNum 50
   \<and> getp (settings (sample_session sample_player_half)) ''minWatchTimeSeconds'' = VNum 300
   \<and> duration sample_player_half = Some 600.5
   \<and> \<not> (50 \<le> min 100 (currentTime sample_player_half / 600.5 * 100)
        \<or> 300 \<le> watchedSeconds (sample_session sample_player_half))
   \<and> min 100 (currentTime sample_player_half / 600.5 * 100) < 49.96
   \<and> snd (evaluateAndSend sample_platform sample_page (sample_session sample_player_half)) \<noteq> None"
  by (simp add: sample_session_simps sample_player_simps evaluateAndSend_def Let_def floor_600_5)

section \<open>The detector sends at most one event per session\<close>

lemma evaluateAndSend_recorded: "hasRecorded s \<Longrightarrow> evaluateAndSend pf pg s = (s, None)"
  by (simp add: evaluateAndSend_def split: option.splits)

lemma evaluateAndSend_emits:
  "evaluateAndSend pf pg s = (s', Some e) \<Longrightarrow> hasRecorded s'"
  by (auto simp: evaluateAndSend_def Let_def split: option.splits if_splits)

lemma evaluateAndSend_keeps:
  "evaluateAndSend pf pg s = (s', out) \<Longrightarrow> hasRecorded s \<Longrightarrow> hasRecorded s'"
  by (simp add: evaluateAndSend_recorded)

lemma step_recorded:
  "hasRecorded s \<Longrightarrow> step pf ev s = (s', out) \<Longrightarrow> hasRecorded s' \<and> out = None"
  by (cases ev)
     (auto simp: trackWatchTime_def observe_def evaluateAndSend_recorded evaluateAutoplay_def
           split: option.splits if_splits)

lemma step_emits: "step pf ev s = (s', Some e) \<Longrightarrow> hasRecorded s'"
  by (cases ev)
     (auto simp: trackWatchTime_def split: option.splits if_splits dest: evaluateAndSend_emits)

lemma snd_run_Cons:
  "snd (run pf s (ev # evs)) =
     (case snd (step pf ev s) of None \<Rightarrow> [] | Some e \<Rightarrow> [e]) @ snd (run pf (fst (step pf ev s)) evs)"
  by (simp split: prod.splits)

lemma run_recorded: "hasRecorded s \<Longrightarrow> snd (run pf s evs) = []"
proof (induction evs arbitrary: s)
  case Nil
  then show ?case by simp
next
  case (Cons ev evs)
  obtain s' out where st: "step pf ev s = (s', out)" by (cases "step pf ev s")
  from step_recorded [OF Cons.prems st] have r: "hasRecorded s'" "out = None" by simp_all
  from Cons.IH [OF r(1)] st r(2) show ?case
    by (simp only: snd_run_Cons) simp
qed

text \<open>
  C3. Whatever samples and \<^verbatim>\<open>ended\<close> events (and \<^verbatim>\<open>playing\<close> events and user interactions)
  arrive during one detection session, in any number and order, the detector sends at most
  one watch event, and none if it has already recorded one; in particular at most one from
  the state that \<^verbatim>\<open>resetTracking\<close> leaves at the start of the session.
\<close>

theorem at_most_one_event:
  "length (snd (run pf s evs)) \<le> (if hasRecorded s then 0 else 1)
   \<and> length (snd (run pf (resetTracking now s) evs)) \<le> 1"
proof -
  have main: "length (snd (run pf s evs)) \<le> (if hasRecorded s then 0 else 1)" for s
  proof (induction evs arbitrary: s)
  case Nil
  then show ?case by simp
next
  case (Cons ev evs)
  obtain s' out where st: "step pf ev s = (s', out)" by (cases "step pf ev s")
  show ?case
  proof (cases "hasRecorded s")
    case True
    then show ?thesis using run_recorded [of s pf "ev # evs"] by simp
  next
    case False
    show ?thesis
    proof (cases out)
      case None
      with st Cons.IH [of s'] False show ?thesis
        by (simp only: snd_run_Cons) (simp split: if_splits)
    next
      case (Some e)
      with st have "hasRecorded s'" by (auto dest: step_emits)
      then have "snd (run pf s' evs) = []" by (rule run_recorded)
      with st Some False show ?thesis
        by (simp only: snd_run_Cons) simp
    qed
  qed
qed
  from main [of s] main [of "resetTracking now s"] show ?thesis
    by (simp add: resetTracking_def)
qed

text \<open>
  An example: two samples and the \<^verbatim>\<open>ended\<close> event of a video of 600 seconds all satisfy the
  condition of qualification (300, 301 and 301 seconds watched), and one event is sent.
\<close>

lemma qualifying_three_times:
  "length (snd (run pf (sampling 0 600 299)
     [Tick \<lparr>currentTime = 300, duration = Some 600, paused = False, ended = False\<rparr> False pg,
      Tick \<lparr>currentTime = 301, duration = Some 600, paused = False, ended = False\<rparr> False pg,
      Ended \<lparr>currentTime = 600, duration = Some 600, paused = False, ended = True\<rparr> pg])) = 1"
  by (simp add: sampling_def trackWatchTime_def observe_def evaluateAndSend_def Let_def
      DEFAULT_THRESHOLDS_def getp_def nullish_or_def js_ge_def POLL_INTERVAL_MS_def)

section \<open>Watch events the orchestrator rejects\<close>

text \<open>
  C8 (amended). The orchestrator rejects an inbound watch event without storing anything
  (the state of the service worker is unchanged) in three cases: when tracking is disabled and
  when the event is an autoplay event while autoplay tracking is disabled, it returns
  \<^verbatim>\<open>{ skipped: true }\<close>; when the event has no media id (or there is no payload), it does not
  return "skipped" but throws \<^verbatim>\<open>Missing video id\<close>, and this check comes first.
\<close>

theorem handleVideoWatched_rejects:
  "(truthy (getp p ''videoId'') \<and> \<not> truthy (getp (getSettings (store st)) ''trackingEnabled'')
      \<longrightarrow> handleVideoWatched pf w now (Some p) st = (Inr Skipped, st))
   \<and> (truthy (getp p ''videoId'') \<and> truthy (getp p ''autoplay'')
        \<and> \<not> truthy (getp (getSettings (store st)) ''trackAutoplay'')
      \<longrightarrow> handleVideoWatched pf w now (Some p) st = (Inr Skipped, st))
   \<and> (\<not> truthy (getp p ''videoId'')
      \<longrightarrow> handleVideoWatched pf w now (Some p) st = (Inl MissingVideoId, st))
   \<and> handleVideoWatched pf w now None st = (Inl MissingVideoId, st)"
  by (simp add: handleVideoWatched_def Let_def)

theorem handleVideoWatched_rejects_witness:
  "\<forall>pf w now.
     handleVideoWatched pf w now (Some sample_event) (idle_worker sample_storage_off)
       = (Inr Skipped, idle_worker sample_storage_off)
     \<and> handleVideoWatched pf w now (Some [''title'' \<mapsto> VStr ''no id'']) (idle_worker sample_storage_off)
       = (Inl MissingVideoId, idle_worker sample_storage_off)"
proof (intro allI)
  fix pf w now
  have a: "truthy (getp sample_event ''videoId'')"
    by (simp add: sample_event_def getp_def)
  have b: "\<not> truthy (getp (getSettings (store (idle_worker sample_storage_off))) ''trackingEnabled'')"
    by (simp add: idle_worker_def sample_storage_off_def getSettings_def getp_def)
  have c: "\<not> truthy (getp [''title'' \<mapsto> VStr ''no id''] ''videoId'')"
    by (simp add: getp_def)
  from handleVideoWatched_rejects [of sample_event "idle_worker sample_storage_off" pf w now] a b
       handleVideoWatched_rejects [of "[''title'' \<mapsto> VStr ''no id'']" "idle_worker sample_storage_off" pf w now] c
  show "handleVideoWatched pf w now (Some sample_event) (idle_worker sample_storage_off)
       = (Inr Skipped, idle_worker sample_storage_off)
     \<and> handleVideoWatched pf w now (Some [''title'' \<mapsto> VStr ''no id'']) (idle_worker sample_storage_off)
       = (Inl MissingVideoId, idle_worker sample_storage_off)"
    by blast
qed

text \<open>
  As the specification states it, the property fails on an event without a media id: the result is the error, not
  "skipped".
\<close>

theorem missing_id_is_not_skipped:
  "fst (handleVideoWatched sample_platform unreachable 0 (Some [''title'' \<mapsto> VStr ''no id''])
          (idle_worker empty_storage)) = Inl MissingVideoId
   \<and> fst (handleVideoWatched sample_platform unreachable 0 (Some [''title'' \<mapsto> VStr ''no id''])
          (idle_worker empty_storage)) \<noteq> Inr Skipped"
  by (simp add: handleVideoWatched_def getp_def)

section \<open>Weekly report on an empty window\<close>

text \<open>
  C7 (amended). When no stored record is recent (\<open>now - watchedAt \<le> 7 days\<close>), report
  generation fails without a request to the classifier and without a change of state: with
  the error \<^verbatim>\<open>No watch history in the past 7 days\<close> if AI features are enabled and an API
  key is stored, and with the error \<^verbatim>\<open>AI disabled or API key missing\<close>, which is checked
  first, otherwise.
\<close>

theorem handleWeeklyReport_empty_window:
  "filter (is_recent pf now) (getVideos (store st)) = []
   \<longrightarrow> handleWeeklyReport pf w now nowISO st =
         (Inl (if truthy (getp (getSettings (store st)) ''aiFeaturesEnabled'')
                  \<and> truthy (getp (getSettings (store st)) ''openRouterApiKey'')
               then NoWatchHistoryInThePast7Days else AIDisabledOrApiKeyMissing), st)
       \<and> calls (snd (handleWeeklyReport pf w now nowISO st)) = calls st"
  by (simp add: handleWeeklyReport_def Let_def)

theorem handleWeeklyReport_empty_window_witness:
  "\<forall>w now nowISO.
     handleWeeklyReport sample_platform w now nowISO (idle_worker sample_storage_ai)
       = (Inl NoWatchHistoryInThePast7Days, idle_worker sample_storage_ai)"
proof (intro allI)
  fix w now nowISO
  have e: "filter (is_recent sample_platform now) (getVideos (store (idle_worker sample_storage_ai))) = []"
    by (simp add: is_recent_def sample_platform_def idle_worker_def sample_storage_ai_def getVideos_def)
  have s: "truthy (getp (getSettings (store (idle_worker sample_storage_ai))) ''aiFeaturesEnabled'')"
      "truthy (getp (getSettings (store (idle_worker sample_storage_ai))) ''openRouterApiKey'')"
    by (simp_all add: idle_worker_def sample_storage_ai_def sample_settings_ai_def getSettings_def getp_def)
  from handleWeeklyReport_empty_window [of sample_platform now "idle_worker sample_storage_ai" w nowISO] e s
  show "handleWeeklyReport sample_platform w now nowISO (idle_worker sample_storage_ai)
       = (Inl NoWatchHistoryInThePast7Days, idle_worker sample_storage_ai)"
    by simp
qed

text \<open>
  As the specification states it, the property fails where AI features are off or no key is stored, as after
  installation: with an empty history the error is the other one.
\<close>

theorem empty_window_without_key:
  "fst (handleWeeklyReport sample_platform unreachable 0 '''' (idle_worker empty_storage))
     = Inl AIDisabledOrApiKeyMissing
   \<and> fst (handleWeeklyReport sample_platform unreachable 0 '''' (idle_worker empty_storage))
     \<noteq> Inl NoWatchHistoryInThePast7Days"
  by (simp add: handleWeeklyReport_def Let_def idle_worker_def empty_storage_def getSettings_def
      DEFAULT_SETTINGS_def getp_def)

section \<open>A job whose two classifier requests fail\<close>

lemma callOpenRouter_failed:
  "truthy apiKey \<Longrightarrow> failed (w (length cs))
   \<Longrightarrow> \<exists>e. callOpenRouter w apiKey model cs = (Inl e, cs @ [model])"
  by (cases "w (length cs)") (simp_all add: callOpenRouter_def)

lemma primary_then_fallback_failed:
  assumes "truthy apiKey" and "failed (w (length cs))" and "failed (w (Suc (length cs)))"
  shows "\<exists>e. primary_then_fallback w apiKey cs = (Inl e, cs @ [AI_MODEL_PRIMARY, AI_MODEL_FALLBACK])"
proof -
  from callOpenRouter_failed [of apiKey w cs AI_MODEL_PRIMARY, OF assms(1,2)] obtain e1 where
    p: "callOpenRouter w apiKey AI_MODEL_PRIMARY cs = (Inl e1, cs @ [AI_MODEL_PRIMARY])" by blast
  from assms(3) have "failed (w (length (cs @ [AI_MODEL_PRIMARY])))" by simp
  from callOpenRouter_failed [of apiKey w "cs @ [AI_MODEL_PRIMARY]" AI_MODEL_FALLBACK, OF assms(1) this] obtain e2 where
    f: "callOpenRouter w apiKey AI_MODEL_FALLBACK (cs @ [AI_MODEL_PRIMARY])
          = (Inl e2, cs @ [AI_MODEL_PRIMARY, AI_MODEL_FALLBACK])" by auto
  from p f show ?thesis by (simp add: primary_then_fallback_def)
qed

lemma categorizeVideoAi_failed:
  assumes "truthy apiKey" and "failed (w (length cs))" and "failed (w (Suc (length cs)))"
  shows "categorizeVideoAi pf w title channelName apiKey cs =
     ((js_or (inferHeuristicCategory pf title channelName) (VStr ''Uncategorized''),
       if truthy (inferHeuristicCategory pf title channelName) then VStr ''medium'' else VStr ''low''),
      cs @ [AI_MODEL_PRIMARY, AI_MODEL_FALLBACK])"
proof -
  from primary_then_fallback_failed [OF assms] obtain e where
    "primary_then_fallback w apiKey cs = (Inl e, cs @ [AI_MODEL_PRIMARY, AI_MODEL_FALLBACK])" by blast
  then show ?thesis
    by (simp add: categorizeVideoAi_def categorize_try_def Let_def)
qed

lemma processSingleJob_failed:
  assumes "truthy (getp (getSettings (store st)) ''aiFeaturesEnabled'')"
    and "truthy (getp (getSettings (store st)) ''openRouterApiKey'')"
    and "failed (w (length (calls st)))" and "failed (w (Suc (length (calls st))))"
  shows "processSingleJob pf w job st =
     st\<lparr>store := updateVideo (getp job ''videoId'')
           [''aiCategory'' \<mapsto> js_or (inferHeuristicCategory pf (getp job ''title'') (getp job ''channelName''))
                                   (VStr ''Uncategorized''),
            ''aiCategoryConfidence'' \<mapsto>
               (if truthy (inferHeuristicCategory pf (getp job ''title'') (getp job ''channelName''))
                then VStr ''medium'' else VStr ''low'')]
           (store st),
        calls := calls st @ [AI_MODEL_PRIMARY, AI_MODEL_FALLBACK]\<rparr>"
  using assms(1,2) categorizeVideoAi_failed [OF assms(2,3,4)]
  by (simp add: processSingleJob_def Let_def)

lemma updateVideo_nth:
  assumes "findIndex (\<lambda>video. strict_eq (getp video ''videoId'') vid) (getVideos st) = Some i"
  shows "getVideos (updateVideo vid updates st) ! i = (getVideos st ! i) ++ updates"
proof -
  from findIndex_Some [OF assms] have "i < length (getVideos st)" by simp
  with assms show ?thesis
    by (simp add: updateVideo_def Let_def setVideos_def getVideos_def)
qed

lemma processSingleJob_aiQueue_upd:
  "processSingleJob pf w job (st\<lparr>aiQueue := q\<rparr>) = (processSingleJob pf w job st)\<lparr>aiQueue := q\<rparr>"
  by (simp add: processSingleJob_def Let_def split: prod.splits)

lemma processQueue_drains: "aiQueue (processQueue pf w st) = []"
proof (induction pf w st rule: processQueue.induct)
  case (1 pf w st)
  show ?case
  proof (cases "aiQueue st")
    case Nil
    then show ?thesis by (subst processQueue.simps) simp
  next
    case (Cons job rest)
    with "1.IH" [OF Cons] show ?thesis by (subst processQueue.simps) simp
  qed
qed

lemma processQueue_Cons:
  "processQueue pf w (st\<lparr>aiQueue := job # rest\<rparr>)
     = processQueue pf w ((processSingleJob pf w job st)\<lparr>aiQueue := rest\<rparr>)"
  by (subst processQueue.simps) (simp add: processSingleJob_aiQueue_upd)

text \<open>
  C1 (amended). When AI features are enabled with a key and both the request to the primary
  model and the request to the fallback model fail (network error, status that is not a
  success, or a body that is not JSON), the job's record is written with the category of the
  keyword heuristic on title and channel name and confidence \<open>medium\<close> if a keyword matches,
  and with \<open>Uncategorized\<close> and \<open>low\<close> if none does; both models have been requested once. The
  worker loop then goes on with the rest of the queue, and whatever the classifier does it
  ends with an empty queue.
\<close>

theorem both_requests_fail:
  "(truthy (getp (getSettings (store st)) ''aiFeaturesEnabled'')
      \<and> truthy (getp (getSettings (store st)) ''openRouterApiKey'')
      \<and> failed (w (length (calls st))) \<and> failed (w (Suc (length (calls st))))
    \<longrightarrow> calls (processSingleJob pf w job st) = calls st @ [AI_MODEL_PRIMARY, AI_MODEL_FALLBACK]
        \<and> (\<forall>i. findIndex (\<lambda>video. strict_eq (getp video ''videoId'') (getp job ''videoId''))
                  (getVideos (store st)) = Some i
             \<longrightarrow> getp (getVideos (store (processSingleJob pf w job st)) ! i) ''aiCategory''
                   = js_or (inferHeuristicCategory pf (getp job ''title'') (getp job ''channelName''))
                           (VStr ''Uncategorized'')
                 \<and> getp (getVideos (store (processSingleJob pf w job st)) ! i) ''aiCategoryConfidence''
                   = (if truthy (inferHeuristicCategory pf (getp job ''title'') (getp job ''channelName''))
                      then VStr ''medium'' else VStr ''low'')
                 \<and> (inferHeuristicCategory pf (getp job ''title'') (getp job ''channelName'') = VNull
                    \<longrightarrow> getp (getVideos (store (processSingleJob pf w job st)) ! i) ''aiCategory''
                          = VStr ''Uncategorized''
                        \<and> getp (getVideos (store (processSingleJob pf w job st)) ! i) ''aiCategoryConfidence''
                          = VStr ''low'')))
   \<and> processQueue pf w (st\<lparr>aiQueue := job # rest\<rparr>)
       = processQueue pf w ((processSingleJob pf w job st)\<lparr>aiQueue := rest\<rparr>)
   \<and> aiQueue (processQueue pf w st) = []
   \<and> (\<not> queueProcessing st
      \<longrightarrow> aiQueue (processQueueSafely pf w st) = [] \<and> \<not> queueProcessing (processQueueSafely pf w st))"
proof (intro conjI impI allI)
  assume a: "truthy (getp (getSettings (store st)) ''aiFeaturesEnabled'')
      \<and> truthy (getp (getSettings (store st)) ''openRouterApiKey'')
      \<and> failed (w (length (calls st))) \<and> failed (w (Suc (length (calls st))))"
  let ?h = "inferHeuristicCategory pf (getp job ''title'') (getp job ''channelName'')"
  from a have p: "processSingleJob pf w job st =
     st\<lparr>store := updateVideo (getp job ''videoId'')
           [''aiCategory'' \<mapsto> js_or ?h (VStr ''Uncategorized''),
            ''aiCategoryConfidence'' \<mapsto> (if truthy ?h then VStr ''medium'' else VStr ''low'')]
           (store st),
        calls := calls st @ [AI_MODEL_PRIMARY, AI_MODEL_FALLBACK]\<rparr>"
    by (intro processSingleJob_failed) blast+
  show "calls (processSingleJob pf w job st) = calls st @ [AI_MODEL_PRIMARY, AI_MODEL_FALLBACK]"
    by (simp add: p)
  fix i
  assume i: "findIndex (\<lambda>video. strict_eq (getp video ''videoId'') (getp job ''videoId''))
                  (getVideos (store st)) = Some i"
  have g: "getVideos (store (processSingleJob pf w job st)) ! i =
      (getVideos (store st) ! i) ++
        [''aiCategory'' \<mapsto> js_or ?h (VStr ''Uncategorized''),
         ''aiCategoryConfidence'' \<mapsto> (if truthy ?h then VStr ''medium'' else VStr ''low'')]"
  proof -
    have "store (processSingleJob pf w job st) =
        updateVideo (getp job ''videoId'')
          [''aiCategory'' \<mapsto> js_or ?h (VStr ''Uncategorized''),
           ''aiCategoryConfidence'' \<mapsto> (if truthy ?h then VStr ''medium'' else VStr ''low'')]
          (store st)"
      by (simp add: p)
    then show ?thesis by (simp only: updateVideo_nth [OF i])
  qed
  show c: "getp (getVideos (store (processSingleJob pf w job st)) ! i) ''aiCategory''
                   = js_or ?h (VStr ''Uncategorized'')"
    by (simp only: g) (simp add: getp_map_add getp_upd)
  show d: "getp (getVideos (store (processSingleJob pf w job st)) ! i) ''aiCategoryConfidence''
                   = (if truthy ?h then VStr ''medium'' else VStr ''low'')"
    by (simp only: g) (simp add: getp_map_add getp_upd)
  assume n: "?h = VNull"
  from c n show "getp (getVideos (store (processSingleJob pf w job st)) ! i) ''aiCategory''
                          = VStr ''Uncategorized''"
    by (simp add: js_or_def)
  from d n show "getp (getVideos (store (processSingleJob pf w job st)) ! i) ''aiCategoryConfidence''
                          = VStr ''low''"
    by simp
next
  show "processQueue pf w (st\<lparr>aiQueue := job # rest\<rparr>)
       = processQueue pf w ((processSingleJob pf w job st)\<lparr>aiQueue := rest\<rparr>)"
    by (rule processQueue_Cons)
next
  show "aiQueue (processQueue pf w st) = []" by (rule processQueue_drains)
next
  assume "\<not> queueProcessing st"
  then show "aiQueue (processQueueSafely pf w st) = []"
    by (simp add: processQueueSafely_def processQueue_drains)
next
  assume "\<not> queueProcessing st"
  then show "\<not> queueProcessing (processQueueSafely pf w st)"
    by (simp add: processQueueSafely_def)
qed


lemma heuristic_Game: "inferHeuristicCategory pf (VStr ''Game'') (VStr ''x'') = VStr ''Gaming''"
  by code_simp

lemma heuristic_Lofi: "inferHeuristicCategory pf (VStr ''Lo-fi'') (VStr ''x'') = VNull"
  by code_simp

lemma sample_ai_facts:
  "truthy (getp (getSettings (store (idle_worker sample_storage_ai))) ''aiFeaturesEnabled'')"
  "truthy (getp (getSettings (store (idle_worker sample_storage_ai))) ''openRouterApiKey'')"
  "failed (unreachable (length (calls (idle_worker sample_storage_ai))))"
  "failed (unreachable (Suc (length (calls (idle_worker sample_storage_ai)))))"
  "getVideos (store (idle_worker sample_storage_ai)) = [sample_stored_video]"
  by (simp_all add: idle_worker_def sample_storage_ai_def sample_settings_ai_def getSettings_def
      getp_def unreachable_def getVideos_def)

lemma sample_job_facts:
  "getp sample_job ''videoId'' = VStr ''abc''" "getp sample_job ''title'' = VStr ''Game''"
  "getp sample_job ''channelName'' = VStr ''x''"
  "getp sample_job_plain ''videoId'' = VStr ''abc''" "getp sample_job_plain ''title'' = VStr ''Lo-fi''"
  "getp sample_job_plain ''channelName'' = VStr ''x''"
  "getp sample_stored_video ''videoId'' = VStr ''abc''"
  by (simp_all add: sample_job_def sample_job_plain_def sample_stored_video_def getp_def)

lemma sample_findIndex:
  "findIndex (\<lambda>video. strict_eq (getp video ''videoId'') (VStr ''abc''))
     (getVideos (store (idle_worker sample_storage_ai))) = Some 0"
  by (simp add: sample_ai_facts sample_job_facts)

theorem both_requests_fail_witness:
  "\<forall>pf.
     getp (getVideos (store (processSingleJob pf unreachable sample_job (idle_worker sample_storage_ai))) ! 0)
       ''aiCategory'' = VStr ''Gaming''
     \<and> getp (getVideos (store (processSingleJob pf unreachable sample_job_plain
                (idle_worker sample_storage_ai))) ! 0) ''aiCategory'' = VStr ''Uncategorized''
     \<and> getp (getVideos (store (processSingleJob pf unreachable sample_job_plain
                (idle_worker sample_storage_ai))) ! 0) ''aiCategoryConfidence'' = VStr ''low''"
proof (intro allI)
  fix pf
  note T = both_requests_fail [of "idle_worker sample_storage_ai" unreachable pf sample_job, THEN conjunct1]
  note U = both_requests_fail [of "idle_worker sample_storage_ai" unreachable pf sample_job_plain, THEN conjunct1]
  from T sample_ai_facts(1-4) sample_findIndex
  have a: "getp (getVideos (store (processSingleJob pf unreachable sample_job (idle_worker sample_storage_ai))) ! 0)
       ''aiCategory'' = VStr ''Gaming''"
    by (simp add: sample_job_facts heuristic_Game js_or_def)
  from U sample_ai_facts(1-4) sample_findIndex
  have b: "getp (getVideos (store (processSingleJob pf unreachable sample_job_plain
                (idle_worker sample_storage_ai))) ! 0) ''aiCategory'' = VStr ''Uncategorized''
     \<and> getp (getVideos (store (processSingleJob pf unreachable sample_job_plain
                (idle_worker sample_storage_ai))) ! 0) ''aiCategoryConfidence'' = VStr ''low''"
    by (simp add: sample_job_facts heuristic_Lofi js_or_def)
  from a b show "getp (getVideos (store (processSingleJob pf unreachable sample_job (idle_worker sample_storage_ai))) ! 0)
       ''aiCategory'' = VStr ''Gaming''
     \<and> getp (getVideos (store (processSingleJob pf unreachable sample_job_plain
                (idle_worker sample_storage_ai))) ! 0) ''aiCategory'' = VStr ''Uncategorized''
     \<and> getp (getVideos (store (processSingleJob pf unreachable sample_job_plain
                (idle_worker sample_storage_ai))) ! 0) ''aiCategoryConfidence'' = VStr ''low''"
    by blast
qed

text \<open>
  As the specification states it, the property fails on a job whose title contains a keyword of the heuristic: with
  both requests failing, the record of the job titled \<open>Game\<close> gets the category \<open>Gaming\<close> and
  the confidence \<open>medium\<close>.
\<close>

theorem heuristic_instead_of_default:
  "failed (unreachable 0) \<and> failed (unreachable 1)
   \<and> getp (getVideos (store (processSingleJob sample_platform unreachable sample_job
              (idle_worker sample_storage_ai))) ! 0) ''videoId'' = VStr ''abc''
   \<and> getp (getVideos (store (processSingleJob sample_platform unreachable sample_job
              (idle_worker sample_storage_ai))) ! 0) ''aiCategory'' = VStr ''Gaming''
   \<and> getp (getVideos (store (processSingleJob sample_platform unreachable sample_job
              (idle_worker sample_storage_ai))) ! 0) ''aiCategoryConfidence'' = VStr ''medium''
   \<and> getp (getVideos (store (processSingleJob sample_platform unreachable sample_job
              (idle_worker sample_storage_ai))) ! 0) ''aiCategory'' \<noteq> VStr ''Uncategorized''"
proof -
  let ?st = "idle_worker sample_storage_ai"
  have p: "store (processSingleJob sample_platform unreachable sample_job ?st) =
      updateVideo (VStr ''abc'')
        [''aiCategory'' \<mapsto> VStr ''Gaming'', ''aiCategoryConfidence'' \<mapsto> VStr ''medium'']
        (store ?st)"
    by (simp add: processSingleJob_failed [OF sample_ai_facts(1-4)] sample_job_facts heuristic_Game js_or_def)
  have g: "getVideos (store (processSingleJob sample_platform unreachable sample_job ?st)) ! 0 =
      sample_stored_video ++ [''aiCategory'' \<mapsto> VStr ''Gaming'', ''aiCategoryConfidence'' \<mapsto> VStr ''medium'']"
    by (simp only: p updateVideo_nth [OF sample_findIndex]) (simp add: sample_ai_facts)
  show ?thesis
    by (simp only: g) (simp add: getp_map_add getp_upd sample_job_facts unreachable_def)
qed

section \<open>Parsing the classifier's answer\<close>

lemma indexOf_None_iff: "indexOf s c = None \<longleftrightarrow> c \<notin> set s"
  by (induction s) auto






















end
